theory Spec2Isabelle
  imports Complex_Main "HOL-Library.Multiset"
begin

section \<open>Shared data model\<close>

text \<open>
  Exceptions of the Python code are values. \<open>IndexError\<close> and \<open>ZeroDivisionError\<close> are the
  two built-in exceptions the modelled code can raise by itself; \<open>Fault\<close> stands for any
  exception raised by an external collaborator (the simulator client, numpy's file
  writer, the csv writer), tagged with a message.
\<close>

datatype error = IndexError | ZeroDivisionError | Fault string

text \<open>
  One row of a recorded sequence: \<^verbatim>\<open>np.array([payload, timestamp], dtype=object)\<close>.
  The payload is a list of elements (events, bytes, points); the timestamp is the simulation
  time in seconds. Timestamps are modelled as reals: the order of finite floats is the order
  of the reals they denote (a NaN timestamp is outside the model).
\<close>

type_synonym 'a row = "'a list \<times> real"

section \<open>Replay of a recording (visualize_recording.py, main)\<close>

text \<open>The four arrays read from the archive, under the names of the .npz file.\<close>

record 'a sequence =
  events :: "'a row list"
  depth_images :: "'a row list"
  lidar_clouds :: "'a row list"
  rgb_images :: "'a row list"

text \<open>
  The calls of the four display functions that have returned are the emissions of the
  replay, kept in a display log.
\<close>

datatype 'a display =
  Viz_events "'a list"
| Viz_depth_image "'a list"
| Viz_point_cloud "'a list"
| Viz_rgb_image "'a list"

record 'a viewer =
  lidar_index :: nat
  rgb_index :: nat
  displayed :: "'a display list"

text \<open>
  The display functions draw with numpy, matplotlib and OpenCV, and they can raise:
  \<^verbatim>\<open>viz_events\<close> (line 35) indexes an image of the size of \<^verbatim>\<open>--dvs-resolution\<close> with the
  coordinates of the events and raises IndexError for an event outside of it;
  \<^verbatim>\<open>viz_depth_image\<close> and \<^verbatim>\<open>viz_point_cloud\<close> index their argument as an array of three and of
  two dimensions and raise IndexError for a payload of another shape. The screen is the
  environment of the replay: for each display function the exception that a call with the
  given payload raises (\<open>None\<close> when the call returns and the frame is shown), and for each
  iteration \<open>i\<close> of the loop the key that \<^verbatim>\<open>cv2.waitKey(0)\<close> returns.
\<close>

record 'a screen =
  viz_events :: "'a list \<Rightarrow> error option"
  viz_depth_image :: "'a list \<Rightarrow> error option"
  viz_point_cloud :: "'a list \<Rightarrow> error option"
  viz_rgb_image :: "'a list \<Rightarrow> error option"
  wait_key :: "nat \<Rightarrow> int"

text \<open>
  \<^verbatim>\<open>arr[i, k]\<close> of a numpy array with a non-negative first index: IndexError when the
  index is not below the length (an empty sequence is loaded as an array of shape (0,), on
  which the two-index access raises IndexError as well).
\<close>

definition at_row :: "'a row list \<Rightarrow> nat \<Rightarrow> error + 'a row" where
  "at_row arr i = (if i < length arr then Inr (arr ! i) else Inl IndexError)"

text \<open>
  Lines 131-136, the try block around the LiDAR check. The except clause swallows IndexError
  only, whether it comes from the access to the row or from \<^verbatim>\<open>viz_point_cloud\<close>; the cursor
  is advanced after the display function has returned. Any other exception leaves the loop.
\<close>

definition check_lidar :: "'a screen \<Rightarrow> 'a row list \<Rightarrow> real \<Rightarrow> 'a viewer \<Rightarrow> error + 'a viewer" where
  "check_lidar scr clouds t v =
     (case at_row clouds (lidar_index v) of
        Inl e \<Rightarrow> Inr v
      | Inr r \<Rightarrow>
          if snd r \<le> t
          then (case viz_point_cloud scr (fst r) of
                  None \<Rightarrow>
                    Inr (v\<lparr>displayed := displayed v @ [Viz_point_cloud (fst r)],
                           lidar_index := lidar_index v + 1\<rparr>)
                | Some e \<Rightarrow> if e = IndexError then Inr v else Inl e)
          else Inr v)"

text \<open>Lines 138-143: the same for the RGB images.\<close>

definition check_rgb :: "'a screen \<Rightarrow> 'a row list \<Rightarrow> real \<Rightarrow> 'a viewer \<Rightarrow> error + 'a viewer" where
  "check_rgb scr images t v =
     (case at_row images (rgb_index v) of
        Inl e \<Rightarrow> Inr v
      | Inr r \<Rightarrow>
          if snd r \<le> t
          then (case viz_rgb_image scr (fst r) of
                  None \<Rightarrow>
                    Inr (v\<lparr>displayed := displayed v @ [Viz_rgb_image (fst r)],
                           rgb_index := rgb_index v + 1\<rparr>)
                | Some e \<Rightarrow> if e = IndexError then Inr v else Inl e)
          else Inr v)"

text \<open>
  Lines 128-143, the body of the loop for reference index \<open>i\<close>. The events row exists
  (\<open>i\<close> ranges over the events). The two display calls of lines 128 and 129 and the access
  to the depth image with the reference index are outside of any try block, so their
  exceptions leave the loop. The result of an iteration that raises is the exception alone:
  what had been displayed before is not kept.
\<close>

definition replay_step :: "'a screen \<Rightarrow> 'a sequence \<Rightarrow> nat \<Rightarrow> 'a viewer \<Rightarrow> error + 'a viewer" where
  "replay_step scr s i v =
     (case at_row (events s) i of
        Inl e \<Rightarrow> Inl e
      | Inr ev \<Rightarrow>
          (case viz_events scr (fst ev) of
             Some e \<Rightarrow> Inl e
           | None \<Rightarrow>
               (case at_row (depth_images s) i of
                  Inl e \<Rightarrow> Inl e
                | Inr d \<Rightarrow>
                    (case viz_depth_image scr (fst d) of
                       Some e \<Rightarrow> Inl e
                     | None \<Rightarrow>
                         (case check_lidar scr (lidar_clouds s) (snd ev)
                                 (v\<lparr>displayed := displayed v @
                                       [Viz_events (fst ev), Viz_depth_image (fst d)]\<rparr>) of
                            Inl e \<Rightarrow> Inl e
                          | Inr v1 \<Rightarrow> check_rgb scr (rgb_images s) (snd ev) v1)))))"

text \<open>
  The loop \<^verbatim>\<open>for i in range(events_with_ts.shape[0])\<close>, from index \<open>i\<close> with \<open>n\<close>
  iterations left. The key 27 (escape) leaves the loop.
\<close>

primrec replay_from :: "'a screen \<Rightarrow> 'a sequence \<Rightarrow> nat \<Rightarrow> nat \<Rightarrow> 'a viewer \<Rightarrow> error + 'a viewer" where
  "replay_from scr s i 0 v = Inr v"
| "replay_from scr s i (Suc n) v =
     (case replay_step scr s i v of
        Inl e \<Rightarrow> Inl e
      | Inr v' \<Rightarrow> if wait_key scr i = 27 then Inr v' else replay_from scr s (Suc i) n v')"

definition viewer0 :: "'a viewer" where
  "viewer0 = \<lparr>lidar_index = 0, rgb_index = 0, displayed = []\<rparr>"

definition replay :: "'a screen \<Rightarrow> 'a sequence \<Rightarrow> error + 'a viewer" where
  "replay scr s = replay_from scr s 0 (length (events s)) viewer0"

text \<open>The number of reference (events) frames in a display log.\<close>

definition reference_emissions :: "'a display list \<Rightarrow> nat" where
  "reference_emissions ds =
     length (filter (\<lambda>d. case d of Viz_events x \<Rightarrow> True | _ \<Rightarrow> False) ds)"

text \<open>
  Following the words of the specification: the frames of a modality that a reference step
  with timestamp \<open>t\<close> has to emit from cursor \<open>c\<close> are the longest run of not yet emitted
  frames with a timestamp of at most \<open>t\<close>.
\<close>

definition spec_drain :: "'a row list \<Rightarrow> nat \<Rightarrow> real \<Rightarrow> 'a row list" where
  "spec_drain frames c t = takeWhile (\<lambda>r. snd r \<le> t) (drop c frames)"

section \<open>Spawning of the background agents (generate_sequence.py lines 69-78)\<close>

text \<open>Simulator actors are identified by their id.\<close>

type_synonym actor = nat

text \<open>
  \<^verbatim>\<open>AIVehicle.__init__\<close>: \<open>spawned\<close> is what \<^verbatim>\<open>world.try_spawn_actor\<close> returned,
  \<open>None\<close> on a collision. The constructor then returns without registering; otherwise the
  instance is appended to the class-level list \<^verbatim>\<open>AIVehicle.instances\<close>.
\<close>

definition ai_vehicle_init :: "actor option \<Rightarrow> actor list \<Rightarrow> actor list" where
  "ai_vehicle_init spawned instances =
     (case spawned of None \<Rightarrow> instances | Some a \<Rightarrow> instances @ [a])"

text \<open>
  Lines 70-72. \<open>pts\<close> is \<^verbatim>\<open>world.get_map().get_spawn_points()\<close>; \<open>choice j\<close> is the
  index drawn by \<^verbatim>\<open>random.choice\<close> in attempt \<open>j\<close> (taken modulo the number of points;
  \<^verbatim>\<open>random.choice\<close> of an empty list raises IndexError); \<open>try_spawn_actor j p\<close> is the
  result of the simulator for attempt \<open>j\<close> at placement \<open>p\<close>. The loop has no other exit
  than reaching \<open>n\<close> registered instances, so it is a partial function: \<open>None\<close> means that
  it never returns.
\<close>

partial_function (option) spawn_vehicles ::
  "'p list \<Rightarrow> (nat \<Rightarrow> nat) \<Rightarrow> (nat \<Rightarrow> 'p \<Rightarrow> actor option) \<Rightarrow> int \<Rightarrow> nat \<Rightarrow> actor list
   \<Rightarrow> (error + actor list) option" where
  "spawn_vehicles pts choice try_spawn_actor n j instances =
     (if int (length instances) < n
      then (if pts = [] then Some (Inl IndexError)
            else spawn_vehicles pts choice try_spawn_actor n (Suc j)
                   (ai_vehicle_init (try_spawn_actor j (pts ! (choice j mod length pts))) instances))
      else Some (Inr instances))"

text \<open>
  \<^verbatim>\<open>AIPedestrian\<close>: the walker and the controller attached to it.
\<close>

record ai_pedestrian =
  pedestrian :: actor
  controller :: actor

text \<open>
  \<^verbatim>\<open>AIPedestrian.__init__\<close>: \<open>spawned\<close> is what \<^verbatim>\<open>world.try_spawn_actor\<close> returned for
  the walker, \<open>None\<close> on a collision; the constructor then returns without registering.
  Otherwise the controller is spawned with \<^verbatim>\<open>world.spawn_actor\<close>, which raises when it
  fails (\<open>spawn_actor p\<close> is its result for the walker \<open>p\<close>), and the instance is appended
  to \<^verbatim>\<open>AIPedestrian.instances\<close>.
\<close>

definition ai_pedestrian_init ::
  "actor option \<Rightarrow> (actor \<Rightarrow> error + actor) \<Rightarrow> ai_pedestrian list \<Rightarrow> error + ai_pedestrian list" where
  "ai_pedestrian_init spawned spawn_actor instances =
     (case spawned of
        None \<Rightarrow> Inr instances
      | Some p \<Rightarrow>
          (case spawn_actor p of
             Inl e \<Rightarrow> Inl e
           | Inr c \<Rightarrow> Inr (instances @ [\<lparr>pedestrian = p, controller = c\<rparr>])))"

text \<open>
  Lines 75-78. \<open>try_spawn_actor j\<close> is the result of the simulator for the walker of attempt
  \<open>j\<close>, at the location drawn by \<^verbatim>\<open>world.get_random_location_from_navigation()\<close>, and
  \<open>spawn_actor j\<close> the one for its controller. As for the vehicles, the loop has no other
  normal exit than reaching \<open>n\<close> registered instances.
\<close>

partial_function (option) spawn_pedestrians ::
  "(nat \<Rightarrow> actor option) \<Rightarrow> (nat \<Rightarrow> actor \<Rightarrow> error + actor) \<Rightarrow> int \<Rightarrow> nat \<Rightarrow> ai_pedestrian list
   \<Rightarrow> (error + ai_pedestrian list) option" where
  "spawn_pedestrians try_spawn_actor spawn_actor n j instances =
     (if int (length instances) < n
      then (case ai_pedestrian_init (try_spawn_actor j) (spawn_actor j) instances of
              Inl e \<Rightarrow> Some (Inl e)
            | Inr registered \<Rightarrow> spawn_pedestrians try_spawn_actor spawn_actor n (Suc j) registered)
      else Some (Inr instances))"

section \<open>Teardown (generate_sequence.py lines 218-223, the destroy methods)\<close>

text \<open>
  The actors of the ego-vehicle. \<open>lidar\<close> holds the three LiDAR sensors of the Pandora model,
  or the single LiDAR sensor otherwise.
\<close>

record ego_vehicle =
  vehicle :: actor
  dvs :: actor
  depth :: actor
  lidar :: "actor list"
  rgb :: actor

text \<open>The actors in the order in which the constructors spawn them.\<close>

definition ego_spawned :: "ego_vehicle \<Rightarrow> actor list" where
  "ego_spawned e = [vehicle e, dvs e, depth e] @ lidar e @ [rgb e]"

definition pedestrian_spawned :: "ai_pedestrian \<Rightarrow> actor list" where
  "pedestrian_spawned p = [pedestrian p, controller p]"

definition spawn_order :: "ego_vehicle \<Rightarrow> actor list \<Rightarrow> ai_pedestrian list \<Rightarrow> actor list" where
  "spawn_order e vs ps = ego_spawned e @ vs @ concat (map pedestrian_spawned ps)"

text \<open>The actors in the order in which the destroy methods destroy them.\<close>

definition ego_destroy :: "ego_vehicle \<Rightarrow> actor list" where
  "ego_destroy e = [dvs e, depth e] @ lidar e @ [rgb e, vehicle e]"

definition pedestrian_destroy :: "ai_pedestrian \<Rightarrow> actor list" where
  "pedestrian_destroy p = [controller p, pedestrian p]"

text \<open>The finally block: the ego-vehicle, the AI vehicles, the AI pedestrians.\<close>

definition teardown :: "ego_vehicle \<Rightarrow> actor list \<Rightarrow> ai_pedestrian list \<Rightarrow> actor list" where
  "teardown e vs ps = ego_destroy e @ vs @ concat (map pedestrian_destroy ps)"

section \<open>Recording of a sequence (generate_sequence.py, main)\<close>

text \<open>
  What a sensor callback receives: the raw buffer and the timestamp. The raw buffer of a
  LiDAR measurement is taken as its list of points (rows of four floats), that of a depth
  image as its list of bytes.
\<close>

record 'a measurement =
  raw_data :: "'a list"
  timestamp :: real

text \<open>The command-line arguments that the recording depends on.\<close>

record args =
  hz :: real
  lidar_hz :: real
  discard_duration :: real
  duration :: real
  lidar_is_pandora :: bool
  output_file :: string
  map_arg :: string

text \<open>
  The sensor queues of the ego-vehicle, the four queues of recorded rows, and the LiDAR
  counter. \<open>point_clouds\<close> is a trace: every value that the variable \<^verbatim>\<open>point_cloud\<close> of
  line 179 has taken in an iteration that ran to its end, in order.
\<close>

record 'a recorder =
  dvs_queue :: "'a measurement list"
  depth_queue :: "'a measurement list"
  lidar_queue :: "'a measurement list"
  rgb_queue :: "'a measurement list"
  events_queue :: "'a row list"
  depth_images_queue :: "'a row list"
  lidar_clouds_queue :: "'a row list"
  rgb_images_queue :: "'a row list"
  current_lidar_idx :: int
  point_clouds :: "'a list list"

definition recorder0 :: "'a recorder" where
  "recorder0 = \<lparr>dvs_queue = [], depth_queue = [], lidar_queue = [], rgb_queue = [],
     events_queue = [], depth_images_queue = [], lidar_clouds_queue = [], rgb_images_queue = [],
     current_lidar_idx = 0, point_clouds = []\<rparr>"

text \<open>
  The simulator is the environment. A call of \<^verbatim>\<open>world.tick()\<close> either raises or returns
  after the sensor callbacks have appended their measurements to the four sensor queues.
\<close>

record 'a delivery =
  to_dvs :: "'a measurement list"
  to_depth :: "'a measurement list"
  to_lidar :: "'a measurement list"
  to_rgb :: "'a measurement list"

record 'a world =
  first_tick :: "error + 'a delivery"
  start_controller :: "error option"
  discard_ticks :: "nat \<Rightarrow> error + 'a delivery"
  record_ticks :: "nat \<Rightarrow> error + 'a delivery"
  traffic_lights :: "nat \<Rightarrow> error option"
  savez :: "error option"
  csv_writerow :: "error option"

definition world_tick :: "error + 'a delivery \<Rightarrow> 'a recorder \<Rightarrow> error + 'a recorder" where
  "world_tick result st =
     (case result of
        Inl e \<Rightarrow> Inl e
      | Inr d \<Rightarrow> Inr (st\<lparr>dvs_queue := dvs_queue st @ to_dvs d,
                        depth_queue := depth_queue st @ to_depth d,
                        lidar_queue := lidar_queue st @ to_lidar d,
                        rgb_queue := rgb_queue st @ to_rgb d\<rparr>))"

text \<open>\<^verbatim>\<open>EgoVehicle.clear_sensor_queues\<close>.\<close>

definition clear_sensor_queues :: "'a recorder \<Rightarrow> 'a recorder" where
  "clear_sensor_queues st =
     st\<lparr>dvs_queue := [], depth_queue := [], lidar_queue := [], rgb_queue := []\<rparr>"

text \<open>\<^verbatim>\<open>int(x)\<close> of a float truncates towards zero.\<close>

definition py_int :: "real \<Rightarrow> int" where
  "py_int x = (if 0 \<le> x then \<lfloor>x\<rfloor> else \<lceil>x\<rceil>)"

text \<open>
  Lines 82-83. The rates and durations are floats, taken as real numbers, and the product is
  the exact one. The float product of the code is the exact product rounded to a double, so
  the two agree whenever the exact product is a double, as for integral durations and rates
  (3 s and 10 s at 200 ticks per second give 600 and 2000); for other values the truncation
  of the rounded product can differ by one from the truncation of the exact product.
\<close>

definition ticks_to_discard :: "args \<Rightarrow> int" where
  "ticks_to_discard a = py_int (discard_duration a * hz a)"

definition ticks_to_record :: "args \<Rightarrow> int" where
  "ticks_to_record a = py_int (duration a * hz a)"

text \<open>
  Line 89, \<^verbatim>\<open>args.hz // args.lidar_hz\<close>: the floor of the quotient (an integral float,
  modelled as an integer), ZeroDivisionError for a zero divisor.
\<close>

definition keep_lidar_every_x_idx :: "args \<Rightarrow> error + int" where
  "keep_lidar_every_x_idx a =
     (if lidar_hz a = 0 then Inl ZeroDivisionError else Inr \<lfloor>hz a / lidar_hz a\<rfloor>)"

text \<open>
  \<^verbatim>\<open>for i in range(n)\<close> with a body that may raise: the iterations \<open>i, i+1, ..\<close>, \<open>n\<close> of
  them, stopping at the first exception.
\<close>

primrec for_range :: "nat \<Rightarrow> nat \<Rightarrow> (nat \<Rightarrow> 's \<Rightarrow> error + 's) \<Rightarrow> 's \<Rightarrow> error + 's" where
  "for_range i 0 body s = Inr s"
| "for_range i (Suc n) body s =
     (case body i s of Inl e \<Rightarrow> Inl e | Inr s' \<Rightarrow> for_range (Suc i) n body s')"

text \<open>
  Lines 143-147: at most one event array is taken from the queue per tick. Decoding the raw
  buffer (\<^verbatim>\<open>np.frombuffer\<close>, \<^verbatim>\<open>np.reshape\<close>) keeps its content and is the identity here, for
  every sensor; the buffers are taken to have the size that the decoding expects. The model
  is of runs without \<^verbatim>\<open>--preview\<close>: the display calls of the preview are not part of it.
\<close>

definition record_events :: "'a recorder \<Rightarrow> 'a recorder" where
  "record_events st =
     (case dvs_queue st of
        [] \<Rightarrow> st
      | m # rest \<Rightarrow> st\<lparr>events_queue := events_queue st @ [(raw_data m, timestamp m)],
                        dvs_queue := rest\<rparr>)"

text \<open>
  Lines 152-158. \<^verbatim>\<open>depth_image[:, :, :3]\<close> drops the fourth byte of every pixel.
\<close>

fun drop_alpha :: "'a list \<Rightarrow> 'a list" where
  "drop_alpha (b # g # r # a # rest) = b # g # r # drop_alpha rest"
| "drop_alpha xs = []"

definition record_depth :: "'a recorder \<Rightarrow> 'a recorder" where
  "record_depth st =
     (case depth_queue st of
        [] \<Rightarrow> st
      | m # rest \<Rightarrow> st\<lparr>depth_images_queue := depth_images_queue st @ [(drop_alpha (raw_data m), timestamp m)],
                        depth_queue := rest\<rparr>)"

text \<open>Lines 169-172.\<close>

definition lidar_subpackets_per_pcl :: "args \<Rightarrow> nat" where
  "lidar_subpackets_per_pcl a = (if lidar_is_pandora a then 3 else 1)"

text \<open>
  Lines 174-179: the concatenation of the first \<open>n\<close> measurements of the queue, in queue order.
\<close>

definition merge_subpackets :: "nat \<Rightarrow> 'a measurement list \<Rightarrow> 'a list" where
  "merge_subpackets n q = concat (map raw_data (take n q))"

text \<open>
  Lines 173-184. The test of line 180 computes \<^verbatim>\<open>current_lidar_idx % keep_lidar_every_x_idx\<close>,
  which raises ZeroDivisionError for a zero divisor; the measurements are removed from the
  queue after the test.
\<close>

definition record_lidar :: "args \<Rightarrow> int \<Rightarrow> 'a recorder \<Rightarrow> error + 'a recorder" where
  "record_lidar a k st =
     (let n = lidar_subpackets_per_pcl a in
      if n \<le> length (lidar_queue st)
      then
        (let point_cloud = merge_subpackets n (lidar_queue st) in
         if k = 0 then Inl ZeroDivisionError
         else
           Inr ((if current_lidar_idx st mod k = 0
                 then st\<lparr>lidar_clouds_queue :=
                          lidar_clouds_queue st @ [(point_cloud, timestamp (hd (lidar_queue st)))]\<rparr>
                 else st)
                \<lparr>current_lidar_idx := current_lidar_idx st + 1,
                 lidar_queue := drop n (lidar_queue st),
                 point_clouds := point_clouds st @ [point_cloud]\<rparr>))
      else Inr st)"

text \<open>Lines 189-194.\<close>

definition record_rgb :: "'a recorder \<Rightarrow> 'a recorder" where
  "record_rgb st =
     (case rgb_queue st of
        [] \<Rightarrow> st
      | m # rest \<Rightarrow> st\<lparr>rgb_images_queue := rgb_images_queue st @ [(raw_data m, timestamp m)],
                        rgb_queue := rest\<rparr>)"

text \<open>
  Lines 99-109: the first tick, the start of the pedestrian controllers, the discarded ticks,
  and the clearing of the sensor queues.
\<close>

definition warm_up :: "args \<Rightarrow> 'a world \<Rightarrow> 'a recorder \<Rightarrow> error + 'a recorder" where
  "warm_up a w st =
     (case world_tick (first_tick w) st of
        Inl e \<Rightarrow> Inl e
      | Inr st1 \<Rightarrow>
          (case start_controller w of
             Some e \<Rightarrow> Inl e
           | None \<Rightarrow>
               (case for_range 0 (nat (ticks_to_discard a)) (\<lambda>i. world_tick (discard_ticks w i)) st1 of
                  Inl e \<Rightarrow> Inl e
                | Inr st2 \<Rightarrow> Inr (clear_sensor_queues st2))))"

text \<open>
  Lines 113-196, one iteration of the recording loop: the tick, the traffic-light
  maintenance (an external step that may raise), then the four queues in the order events,
  depth, LiDAR, RGB.
\<close>

definition record_tick :: "args \<Rightarrow> int \<Rightarrow> 'a world \<Rightarrow> nat \<Rightarrow> 'a recorder \<Rightarrow> error + 'a recorder" where
  "record_tick a k w i st =
     (case world_tick (record_ticks w i) st of
        Inl e \<Rightarrow> Inl e
      | Inr st1 \<Rightarrow>
          (case traffic_lights w i of
             Some e \<Rightarrow> Inl e
           | None \<Rightarrow>
               (case record_lidar a k (record_depth (record_events st1)) of
                  Inl e \<Rightarrow> Inl e
                | Inr st2 \<Rightarrow> Inr (record_rgb st2))))"

definition recording :: "args \<Rightarrow> int \<Rightarrow> 'a world \<Rightarrow> 'a recorder \<Rightarrow> error + 'a recorder" where
  "recording a k w st = for_range 0 (nat (ticks_to_record a)) (record_tick a k w) st"

text \<open>
  The four named arrays handed to \<^verbatim>\<open>np.savez\<close> or, with \<^verbatim>\<open>args.compressed\<close>, to
  \<^verbatim>\<open>np.savez_compressed\<close>; \<open>savez\<close> of the world is the exception of whichever is called.
\<close>

definition saved_sequence :: "'a recorder \<Rightarrow> 'a sequence" where
  "saved_sequence st =
     \<lparr>events = events_queue st, depth_images = depth_images_queue st,
      lidar_clouds = lidar_clouds_queue st, rgb_images = rgb_images_queue st\<rparr>"

text \<open>\<^verbatim>\<open>args.output_file.split('/')[-1]\<close>.\<close>

definition base_name :: "string \<Rightarrow> string" where
  "base_name path = rev (takeWhile (\<lambda>c. c \<noteq> CHR ''/'') (rev path))"

text \<open>
  What a run leaves behind: the exception that reached the caller of \<^verbatim>\<open>main\<close>, the
  archive written, the row appended to the csv file, and the actors destroyed, in order.
\<close>

record 'a outcome =
  raised :: "error option"
  archive :: "'a sequence option"
  index_row :: "(string \<times> nat \<times> string) option"
  destroyed :: "actor list"

text \<open>
  Lines 98-214, the try block. There is no except clause: an exception of any statement
  ends the block and is re-raised after the finally block.
\<close>

definition try_block ::
  "args \<Rightarrow> int \<Rightarrow> 'a world \<Rightarrow> error option \<times> 'a sequence option \<times> (string \<times> nat \<times> string) option" where
  "try_block a k w =
     (case warm_up a w recorder0 of
        Inl e \<Rightarrow> (Some e, None, None)
      | Inr st \<Rightarrow>
          (case recording a k w st of
             Inl e \<Rightarrow> (Some e, None, None)
           | Inr st' \<Rightarrow>
               (case savez w of
                  Some e \<Rightarrow> (Some e, None, None)
                | None \<Rightarrow>
                    (case csv_writerow w of
                       Some e \<Rightarrow> (Some e, Some (saved_sequence st'), None)
                     | None \<Rightarrow>
                         (None, Some (saved_sequence st'),
                          Some (base_name (output_file a), length (lidar_clouds_queue st'), map_arg a))))))"

text \<open>
  Lines 80-223, with the actors spawned before, for a run in which no call of the finally
  block raises (\<open>main_run\<close> below is the general case and agrees with \<open>session\<close> for such
  a run). Line 89 is outside of the try block: its exception ends the run without teardown.
\<close>

definition session ::
  "args \<Rightarrow> 'a world \<Rightarrow> ego_vehicle \<Rightarrow> actor list \<Rightarrow> ai_pedestrian list \<Rightarrow> 'a outcome" where
  "session a w ego vehicles pedestrians =
     (case keep_lidar_every_x_idx a of
        Inl e \<Rightarrow> \<lparr>raised = Some e, archive = None, index_row = None, destroyed = []\<rparr>
      | Inr k \<Rightarrow>
          (case try_block a k w of
             (r, arch, row) \<Rightarrow>
               \<lparr>raised = r, archive = arch, index_row = row,
                destroyed = teardown ego vehicles pedestrians\<rparr>))"

text \<open>
  The finally block in general. Its calls are made in order with nothing around them, so the
  first call that raises ends the block and the calls after it are not made; its exception
  is the one that reaches the caller of \<^verbatim>\<open>main\<close>, in place of an exception of the try
  block. A call is the destruction of an actor or the stop of a pedestrian's controller
  (\<^verbatim>\<open>AIPedestrian.destroy\<close> stops the controller before it destroys it); \<open>fails c\<close> is the
  exception that the call \<open>c\<close> raises, \<open>None\<close> when it returns.
\<close>

datatype call = Stop actor | Destroy actor

definition pedestrian_destroy_calls :: "ai_pedestrian \<Rightarrow> call list" where
  "pedestrian_destroy_calls p = [Stop (controller p), Destroy (controller p), Destroy (pedestrian p)]"

definition teardown_calls :: "ego_vehicle \<Rightarrow> actor list \<Rightarrow> ai_pedestrian list \<Rightarrow> call list" where
  "teardown_calls e vs ps =
     map Destroy (ego_destroy e) @ map Destroy vs @ concat (map pedestrian_destroy_calls ps)"

text \<open>The actors that a list of calls destroys when every call returns.\<close>

fun destroyed_by :: "call list \<Rightarrow> actor list" where
  "destroyed_by [] = []"
| "destroyed_by (Stop x # cs) = destroyed_by cs"
| "destroyed_by (Destroy x # cs) = x # destroyed_by cs"

text \<open>
  The calls made in order up to the first one that raises: the actors destroyed by the
  calls that have returned, and the exception if there is one.
\<close>

fun run_calls :: "(call \<Rightarrow> error option) \<Rightarrow> call list \<Rightarrow> actor list \<times> error option" where
  "run_calls fails [] = ([], None)"
| "run_calls fails (c # cs) =
     (case fails c of
        Some e \<Rightarrow> ([], Some e)
      | None \<Rightarrow> (case run_calls fails cs of (ds, r) \<Rightarrow> (destroyed_by [c] @ ds, r)))"

definition main_run ::
  "args \<Rightarrow> 'a world \<Rightarrow> (call \<Rightarrow> error option) \<Rightarrow> ego_vehicle \<Rightarrow> actor list \<Rightarrow> ai_pedestrian list
   \<Rightarrow> 'a outcome" where
  "main_run a w fails ego vehicles pedestrians =
     (case keep_lidar_every_x_idx a of
        Inl e \<Rightarrow> \<lparr>raised = Some e, archive = None, index_row = None, destroyed = []\<rparr>
      | Inr k \<Rightarrow>
          (case try_block a k w of
             (r, arch, row) \<Rightarrow>
               (case run_calls fails (teardown_calls ego vehicles pedestrians) of
                  (ds, f) \<Rightarrow>
                    \<lparr>raised = (case f of Some e \<Rightarrow> Some e | None \<Rightarrow> r),
                     archive = arch, index_row = row, destroyed = ds\<rparr>)))"

text \<open>
  Following the words of the specification: of the merged clouds \<open>xs\<close>, counted from 0 in
  the order in which they are formed, those whose count is a multiple of \<open>k\<close> are retained.
\<close>

definition spec_retained :: "int \<Rightarrow> 'b list \<Rightarrow> 'b list" where
  "spec_retained k xs = map snd (filter (\<lambda>(c, x). int c mod k = 0) (enumerate 0 xs))"

text \<open>A tick that returns and has appended at least \<open>n\<close> measurements to the LiDAR queue.\<close>

definition delivers_lidar :: "nat \<Rightarrow> error + 'a delivery \<Rightarrow> bool" where
  "delivers_lidar n result = (case result of Inl e \<Rightarrow> False | Inr d \<Rightarrow> n \<le> length (to_lidar d))"

text \<open>A tick that returns.\<close>

definition returns :: "error + 'b \<Rightarrow> bool" where
  "returns result = (case result of Inl e \<Rightarrow> False | Inr x \<Rightarrow> True)"

section \<open>Concrete inputs\<close>

text \<open>The defaults of \<^verbatim>\<open>parse_args\<close> (generate_sequence_args.py).\<close>

definition args_default :: args where
  "args_default =
     \<lparr>hz = 200, lidar_hz = 10, discard_duration = 3, duration = 10, lidar_is_pandora = False,
      output_file = ''data/out.npz'', map_arg = ''Town01''\<rparr>"

text \<open>
  Short runs: two ticks per second, a LiDAR rate of one cloud per second, one discarded tick
  and three recorded ticks; the same with a LiDAR rate equal to the tick rate and two recorded
  ticks; the defaults with the Pandora model; and a tick rate of 5 with the default LiDAR
  rate of 10.
\<close>

definition args_short :: args where
  "args_short = args_default\<lparr>hz := 2, lidar_hz := 1, discard_duration := 1 / 2, duration := 3 / 2\<rparr>"

definition args_full_rate :: args where
  "args_full_rate = args_short\<lparr>lidar_hz := 2, duration := 1\<rparr>"

definition args_pandora :: args where
  "args_pandora = args_default\<lparr>lidar_is_pandora := True\<rparr>"

definition args_slow :: args where
  "args_slow = args_default\<lparr>hz := 5, duration := 1, discard_duration := 0\<rparr>"

text \<open>
  A world in which no call fails and every tick appends one measurement to each sensor
  queue: measurement \<open>i\<close> has the payload \<open>[i]\<close> (the depth image: one pixel of four bytes) and
  the timestamp \<open>i\<close>. The first tick
  delivers measurement 0, the discarded tick \<open>i\<close> measurement \<open>i + 1\<close>, the recorded tick
  \<open>i\<close> measurement \<open>i + 10\<close>.
\<close>

definition frame :: "nat \<Rightarrow> nat measurement" where
  "frame i = \<lparr>raw_data = [i], timestamp = real i\<rparr>"

definition depth_frame :: "nat \<Rightarrow> nat measurement" where
  "depth_frame i = \<lparr>raw_data = [i, i, i, 255], timestamp = real i\<rparr>"

definition one_each :: "nat \<Rightarrow> nat delivery" where
  "one_each i =
     \<lparr>to_dvs = [frame i], to_depth = [depth_frame i], to_lidar = [frame i], to_rgb = [frame i]\<rparr>"

definition steady_world :: "nat world" where
  "steady_world =
     \<lparr>first_tick = Inr (one_each 0), start_controller = None,
      discard_ticks = (\<lambda>i. Inr (one_each (i + 1))),
      record_ticks = (\<lambda>i. Inr (one_each (i + 10))),
      traffic_lights = (\<lambda>i. None), savez = None, csv_writerow = None\<rparr>"

text \<open>Other deliveries for the discarded ticks: tick \<open>i\<close> delivers measurement \<open>i + 30\<close>.\<close>

definition late_discard_ticks :: "nat \<Rightarrow> error + nat delivery" where
  "late_discard_ticks i = Inr (one_each (i + 30))"

text \<open>
  The recorder at the end of the recording loop in \<open>steady_world\<close>, for \<open>args_short\<close>
  (three ticks, every second cloud kept) and for \<open>args_full_rate\<close> (two ticks, every cloud
  kept).
\<close>

definition recorded_short :: "nat recorder" where
  "recorded_short =
     \<lparr>dvs_queue = [], depth_queue = [], lidar_queue = [], rgb_queue = [],
      events_queue = [([10], 10), ([11], 11), ([12], 12)],
      depth_images_queue = [([10, 10, 10], 10), ([11, 11, 11], 11), ([12, 12, 12], 12)],
      lidar_clouds_queue = [([10], 10), ([12], 12)],
      rgb_images_queue = [([10], 10), ([11], 11), ([12], 12)],
      current_lidar_idx = 3, point_clouds = [[10], [11], [12]]\<rparr>"

definition recorded_full_rate :: "nat recorder" where
  "recorded_full_rate =
     \<lparr>dvs_queue = [], depth_queue = [], lidar_queue = [], rgb_queue = [],
      events_queue = [([10], 10), ([11], 11)],
      depth_images_queue = [([10, 10, 10], 10), ([11, 11, 11], 11)],
      lidar_clouds_queue = [([10], 10), ([11], 11)],
      rgb_images_queue = [([10], 10), ([11], 11)],
      current_lidar_idx = 2, point_clouds = [[10], [11]]\<rparr>"

text \<open>The same world with a csv file that cannot be opened.\<close>

definition csv_failing_world :: "nat world" where
  "csv_failing_world = steady_world\<lparr>csv_writerow := Some (Fault ''cannot open the csv file'')\<rparr>"

text \<open>
  The Pandora model with a tick rate of 5 and the default LiDAR rate of 10, and a world in
  which every tick delivers three LiDAR measurements.
\<close>

definition args_pandora_slow :: args where
  "args_pandora_slow = args_slow\<lparr>lidar_is_pandora := True\<rparr>"

definition three_each_world :: "nat world" where
  "three_each_world =
     steady_world\<lparr>record_ticks :=
       (\<lambda>i. Inr ((one_each (i + 10))\<lparr>to_lidar := [frame (i + 10), frame (i + 10), frame (i + 10)]\<rparr>))\<rparr>"

text \<open>
  Worlds in which one tick raises, the discarded tick 599 or the recorded tick 1999, and a
  tick that always raises.
\<close>

definition last_discard_fails :: "nat world" where
  "last_discard_fails =
     steady_world\<lparr>discard_ticks :=
       (\<lambda>i. if i = 599 then Inl (Fault ''tick'') else Inr (one_each (i + 1)))\<rparr>"

definition last_record_fails :: "nat world" where
  "last_record_fails =
     steady_world\<lparr>record_ticks :=
       (\<lambda>i. if i = 1999 then Inl (Fault ''tick'') else Inr (one_each (i + 10)))\<rparr>"

definition no_more_ticks :: "nat \<Rightarrow> error + nat delivery" where
  "no_more_ticks i = Inl (Fault ''no more ticks'')"

text \<open>An ego-vehicle with one LiDAR, two AI vehicles and one AI pedestrian, numbered as spawned.\<close>

definition ego0 :: ego_vehicle where
  "ego0 = \<lparr>vehicle = 0, dvs = 1, depth = 2, lidar = [3], rgb = 4\<rparr>"

definition vehicles0 :: "actor list" where
  "vehicles0 = [5, 6]"

definition pedestrians0 :: "ai_pedestrian list" where
  "pedestrians0 = [\<lparr>pedestrian = 7, controller = 8\<rparr>]"

text \<open>
  Teardown calls: none raises; the destruction of the first AI vehicle (actor 5) raises.
\<close>

definition no_fault :: "call \<Rightarrow> error option" where
  "no_fault c = None"

definition vehicle_5_fails :: "call \<Rightarrow> error option" where
  "vehicle_5_fails c = (if c = Destroy 5 then Some (Fault ''destroy failed'') else None)"

text \<open>
  Spawning: a map with a single spawn point, a simulator in which every attempt collides,
  and one in which the attempts 0 to 4 collide and every later one yields actor 9.
\<close>

definition single_point :: "nat list" where
  "single_point = [0]"

definition first_choice :: "nat \<Rightarrow> nat" where
  "first_choice j = 0"

definition always_collides :: "nat \<Rightarrow> nat \<Rightarrow> actor option" where
  "always_collides j p = None"

definition sixth_succeeds :: "nat \<Rightarrow> nat \<Rightarrow> actor option" where
  "sixth_succeeds j p = (if j < 5 then None else Some 9)"

text \<open>
  Walkers: every attempt collides; the attempts 0 to 4 collide and every later one yields
  actor 10; the controller of walker \<open>p\<close> is actor \<open>p + 1\<close>; the spawning of a
  controller raises.
\<close>

definition walker_always_collides :: "nat \<Rightarrow> actor option" where
  "walker_always_collides j = None"

definition walker_sixth_succeeds :: "nat \<Rightarrow> actor option" where
  "walker_sixth_succeeds j = (if j < 5 then None else Some 10)"

definition next_controller :: "nat \<Rightarrow> actor \<Rightarrow> error + actor" where
  "next_controller j p = Inr (p + 1)"

definition no_controller :: "nat \<Rightarrow> actor \<Rightarrow> error + actor" where
  "no_controller j p = Inl (Fault ''spawn failed'')"

text \<open>
  Recordings: one reference frame at time 2 with two point clouds of the times 0 and 1; one
  reference frame without depth image; two reference frames with their depth images, no
  point cloud and one RGB image; and one reference frame whose only event has the
  x coordinate 1500.
\<close>

definition seq_two_clouds :: "nat sequence" where
  "seq_two_clouds =
     \<lparr>events = [([0], 2)], depth_images = [([0], 2)],
      lidar_clouds = [([1], 0), ([2], 1)], rgb_images = []\<rparr>"

definition seq_no_depth :: "nat sequence" where
  "seq_no_depth = \<lparr>events = [([0], 0)], depth_images = [], lidar_clouds = [], rgb_images = []\<rparr>"

definition seq_no_clouds :: "nat sequence" where
  "seq_no_clouds =
     \<lparr>events = [([0], 0), ([1], 1)], depth_images = [([0], 0), ([1], 1)],
      lidar_clouds = [], rgb_images = [([5], 1)]\<rparr>"

definition seq_wide :: "nat sequence" where
  "seq_wide = \<lparr>events = [([1500], 0)], depth_images = [([0], 0)], lidar_clouds = [], rgb_images = []\<rparr>"

text \<open>
  Screens: one on which every display call returns and escape is never pressed; the same
  with escape pressed in every iteration; and one whose event image is 1280 pixels wide (the
  default of \<^verbatim>\<open>--dvs-resolution\<close>), an event being given by its x coordinate.
\<close>

definition plain_screen :: "nat screen" where
  "plain_screen =
     \<lparr>viz_events = (\<lambda>p. None), viz_depth_image = (\<lambda>p. None), viz_point_cloud = (\<lambda>p. None),
      viz_rgb_image = (\<lambda>p. None), wait_key = (\<lambda>i. 0)\<rparr>"

definition escape_screen :: "nat screen" where
  "escape_screen = plain_screen\<lparr>wait_key := (\<lambda>i. 27)\<rparr>"

definition screen_1280 :: "nat screen" where
  "screen_1280 =
     plain_screen\<lparr>viz_events := (\<lambda>p. if list_all (\<lambda>x. x < 1280) p then None else Some IndexError)\<rparr>"

text \<open>
  The relation between the LiDAR counter, the retained clouds and the clouds formed that
  every iteration of the recording loop maintains.
\<close>

definition dec_inv :: "int \<Rightarrow> 'a recorder \<Rightarrow> bool" where
  "dec_inv k st \<longleftrightarrow>
     current_lidar_idx st = int (length (point_clouds st)) \<and>
     map fst (lidar_clouds_queue st) = spec_retained k (point_clouds st)"

section \<open>Lemmas on the loops\<close>


lemma for_range_invariant:
  assumes "\<And>j s s'. P s \<Longrightarrow> body j s = Inr s' \<Longrightarrow> P s'"
  shows "P s \<Longrightarrow> for_range i n body s = Inr s' \<Longrightarrow> P s'"
proof (induction n arbitrary: i s)
  case 0
  then show ?case by simp
next
  case (Suc n)
  from Suc.prems(2) obtain s1 where b: "body i s = Inr s1" and r: "for_range (Suc i) n body s1 = Inr s'"
    by (auto split: sum.splits)
  from assms [OF Suc.prems(1) b] have "P s1" .
  from Suc.IH [OF this r] show ?case .
qed

lemma for_range_progress:
  assumes "\<And>j s. i \<le> j \<Longrightarrow> j < i + n \<Longrightarrow> P s \<Longrightarrow> \<exists>s'. body j s = Inr s' \<and> P s' \<and> f s' = Suc (f s)"
  shows "P s \<Longrightarrow> \<exists>s'. for_range i n body s = Inr s' \<and> P s' \<and> f s' = f s + n"
  using assms
proof (induction n arbitrary: i s)
  case 0
  then show ?case by simp
next
  case (Suc n)
  have "i \<le> i" "i < i + Suc n" by simp_all
  from Suc.prems(2) [OF this Suc.prems(1)] obtain s1 where
    b: "body i s = Inr s1" and p: "P s1" and f: "f s1 = Suc (f s)" by blast
  have step: "\<And>j s. Suc i \<le> j \<Longrightarrow> j < Suc i + n \<Longrightarrow> P s \<Longrightarrow> \<exists>s'. body j s = Inr s' \<and> P s' \<and> f s' = Suc (f s)"
    using Suc.prems(2) by simp
  from Suc.IH [OF p step] obtain s' where
    "for_range (Suc i) n body s1 = Inr s'" "P s'" "f s' = f s1 + n" by blast
  with b f show ?case by simp
qed

lemma spec_retained_snoc:
  "spec_retained k (xs @ [x]) = spec_retained k xs @ (if int (length xs) mod k = 0 then [x] else [])"
  by (simp add: spec_retained_def enumerate_append_eq)

lemma dec_inv_recorder0: "dec_inv k recorder0"
  by (simp add: dec_inv_def recorder0_def spec_retained_def)

lemma dec_inv_world_tick: "dec_inv k st \<Longrightarrow> world_tick r st = Inr st' \<Longrightarrow> dec_inv k st'"
  by (auto simp: dec_inv_def world_tick_def split: sum.splits)

lemma dec_inv_record_events: "dec_inv k st \<Longrightarrow> dec_inv k (record_events st)"
  by (simp add: dec_inv_def record_events_def split: list.splits)

lemma dec_inv_record_depth: "dec_inv k st \<Longrightarrow> dec_inv k (record_depth st)"
  by (simp add: dec_inv_def record_depth_def split: list.splits)

lemma dec_inv_record_rgb: "dec_inv k st \<Longrightarrow> dec_inv k (record_rgb st)"
  by (simp add: dec_inv_def record_rgb_def split: list.splits)

lemma dec_inv_record_lidar: "dec_inv k st \<Longrightarrow> record_lidar a k st = Inr st' \<Longrightarrow> dec_inv k st'"
  by (auto simp: dec_inv_def record_lidar_def Let_def spec_retained_snoc split: if_splits)

lemma dec_inv_record_tick: "dec_inv k st \<Longrightarrow> record_tick a k w i st = Inr st' \<Longrightarrow> dec_inv k st'"
proof -
  assume inv: "dec_inv k st" and run: "record_tick a k w i st = Inr st'"
  from run obtain st1 st2 where
    t: "world_tick (record_ticks w i) st = Inr st1" and
    l: "record_lidar a k (record_depth (record_events st1)) = Inr st2" and
    r: "st' = record_rgb st2"
    by (auto simp: record_tick_def split: sum.splits option.splits)
  from dec_inv_world_tick [OF inv t] have "dec_inv k (record_depth (record_events st1))"
    by (intro dec_inv_record_depth dec_inv_record_events)
  from dec_inv_record_lidar [OF this l] show ?thesis
    unfolding r by (rule dec_inv_record_rgb)
qed

lemma dec_inv_recording: "dec_inv k st \<Longrightarrow> recording a k w st = Inr st' \<Longrightarrow> dec_inv k st'"
  unfolding recording_def by (rule for_range_invariant [where P = "dec_inv k"]) (rule dec_inv_record_tick)

lemma int_ceil_step:
  fixes k m :: int
  assumes k: "1 \<le> k"
  shows "- ((- (m + 1)) div k) = - ((- m) div k) + (if m mod k = 0 then 1 else 0)"
proof -
  define q where "q = m div k"
  define r where "r = m mod k"
  have m: "m = k * q + r" and r0: "0 \<le> r" and rk: "r < k"
    using k by (simp_all add: q_def r_def)
  have "- (m + 1) = k * (- q - 1) + (k - r - 1)"
    by (simp add: m algebra_simps)
  then have d1: "(- (m + 1)) div k = - q - 1"
    using r0 rk int_div_pos_eq [of "- (m + 1)" k "- q - 1" "k - r - 1"] by simp
  show ?thesis
  proof (cases "r = 0")
    case True
    then have "- m = k * (- q) + 0" by (simp add: m)
    then have "(- m) div k = - q" using k int_div_pos_eq [of "- m" k "- q" 0] by simp
    with d1 True show ?thesis by (simp add: r_def)
  next
    case False
    have "- m = k * (- q - 1) + (k - r)" by (simp add: m algebra_simps)
    then have "(- m) div k = - q - 1"
      using r0 rk False int_div_pos_eq [of "- m" k "- q - 1" "k - r"] by simp
    with d1 False show ?thesis by (simp add: r_def)
  qed
qed

lemma ceiling_step:
  fixes k :: int and m :: nat
  assumes "1 \<le> k"
  shows "\<lceil>real (Suc m) / real_of_int k\<rceil> = \<lceil>real m / real_of_int k\<rceil> + (if int m mod k = 0 then 1 else 0)"
proof -
  have a: "real (Suc m) = real_of_int (int m + 1)" by simp
  have b: "real m = real_of_int (int m)" by simp
  show ?thesis
    unfolding a b ceiling_divide_eq_div using int_ceil_step [OF assms, of "int m"] by simp
qed

lemma length_spec_retained:
  assumes "1 \<le> k"
  shows "int (length (spec_retained k xs)) = \<lceil>real (length xs) / real_of_int k\<rceil>"
proof (induction xs rule: rev_induct)
  case Nil
  show ?case by (simp add: spec_retained_def)
next
  case (snoc x xs)
  show ?case
    using snoc.IH ceiling_step [OF assms, of "length xs"] by (simp add: spec_retained_snoc)
qed

lemma spec_retained_1: "spec_retained 1 xs = xs"
  by (induction xs rule: rev_induct) (simp_all add: spec_retained_def enumerate_append_eq)

lemma spec_retained_hd:
  "k \<noteq> 0 \<Longrightarrow> xs \<noteq> [] \<Longrightarrow> spec_retained k xs \<noteq> [] \<and> hd (spec_retained k xs) = hd xs"
  by (cases xs) (simp_all add: spec_retained_def)

lemma world_tick_clear:
  "world_tick r st = Inr st' \<Longrightarrow> clear_sensor_queues st' = clear_sensor_queues st"
  by (auto simp: world_tick_def clear_sensor_queues_def split: sum.splits)

lemma discard_loop_clear:
  assumes "for_range i n (\<lambda>j. world_tick (ticks j)) st = Inr st'"
  shows "clear_sensor_queues st' = clear_sensor_queues st"
  using _ _ assms
  by (rule for_range_invariant [where P = "\<lambda>s. clear_sensor_queues s = clear_sensor_queues st"])
    (simp_all add: world_tick_clear)

lemma warm_up_clear:
  assumes "warm_up a w st = Inr st'"
  shows "st' = clear_sensor_queues st"
proof -
  from assms obtain st1 st2 where
    t: "world_tick (first_tick w) st = Inr st1" and
    d: "for_range 0 (nat (ticks_to_discard a)) (\<lambda>i. world_tick (discard_ticks w i)) st1 = Inr st2" and
    c: "st' = clear_sensor_queues st2"
    by (auto simp: warm_up_def split: sum.splits option.splits)
  from discard_loop_clear [OF d] world_tick_clear [OF t] c show ?thesis by simp
qed

lemma warm_up_recorder0: "warm_up a w recorder0 = Inr st \<Longrightarrow> st = recorder0"
  by (drule warm_up_clear) (simp add: clear_sensor_queues_def recorder0_def)

lemma discard_loop_returns:
  assumes "\<And>j. i \<le> j \<Longrightarrow> j < i + n \<Longrightarrow> returns (ticks j)"
  shows "\<exists>st'. for_range i n (\<lambda>j. world_tick (ticks j)) st = Inr st'"
  using assms
proof (induction n arbitrary: i st)
  case 0
  then show ?case by simp
next
  case (Suc n)
  have "returns (ticks i)" using Suc.prems [of i] by simp
  then obtain s1 where s1: "world_tick (ticks i) st = Inr s1"
    by (auto simp: returns_def world_tick_def split: sum.splits)
  have "\<exists>s'. for_range (Suc i) n (\<lambda>j. world_tick (ticks j)) s1 = Inr s'"
    by (rule Suc.IH) (simp add: Suc.prems)
  with s1 show ?case by simp
qed

lemma warm_up_returns:
  assumes "returns (first_tick w)" "start_controller w = None"
    "\<And>j. j < nat (ticks_to_discard a) \<Longrightarrow> returns (discard_ticks w j)"
  shows "warm_up a w st = Inr (clear_sensor_queues st)"
proof -
  from assms(1) obtain st1 where t: "world_tick (first_tick w) st = Inr st1"
    by (auto simp: returns_def world_tick_def split: sum.splits)
  from discard_loop_returns [of 0 "nat (ticks_to_discard a)" "discard_ticks w" st1] assms(3)
  obtain st2 where d: "for_range 0 (nat (ticks_to_discard a)) (\<lambda>i. world_tick (discard_ticks w i)) st1 = Inr st2"
    by auto
  from t d assms(2) have "warm_up a w st = Inr (clear_sensor_queues st2)"
    by (simp add: warm_up_def)
  with warm_up_clear [of a w st] show ?thesis by simp
qed

lemma record_events_lidar:
  "lidar_queue (record_events st) = lidar_queue st \<and> point_clouds (record_events st) = point_clouds st"
  by (simp add: record_events_def split: list.splits)

lemma record_depth_lidar:
  "lidar_queue (record_depth st) = lidar_queue st \<and> point_clouds (record_depth st) = point_clouds st"
  by (simp add: record_depth_def split: list.splits)

lemma record_rgb_lidar:
  "lidar_queue (record_rgb st) = lidar_queue st \<and> point_clouds (record_rgb st) = point_clouds st"
  by (simp add: record_rgb_def split: list.splits)

lemma record_lidar_forms:
  assumes "k \<noteq> 0" "lidar_subpackets_per_pcl a \<le> length (lidar_queue st)"
  shows "\<exists>st'. record_lidar a k st = Inr st' \<and>
           point_clouds st' = point_clouds st @ [merge_subpackets (lidar_subpackets_per_pcl a) (lidar_queue st)]"
  using assms by (simp add: record_lidar_def Let_def)

lemma record_tick_forms:
  assumes k: "k \<noteq> 0" and d: "delivers_lidar (lidar_subpackets_per_pcl a) (record_ticks w i)"
    and t: "traffic_lights w i = None"
  shows "\<exists>st'. record_tick a k w i st = Inr st' \<and> length (point_clouds st') = Suc (length (point_clouds st))"
proof -
  from d obtain dl where dl: "record_ticks w i = Inr dl" and n: "lidar_subpackets_per_pcl a \<le> length (to_lidar dl)"
    by (auto simp: delivers_lidar_def split: sum.splits)
  define st1 where "st1 = st\<lparr>dvs_queue := dvs_queue st @ to_dvs dl,
                        depth_queue := depth_queue st @ to_depth dl,
                        lidar_queue := lidar_queue st @ to_lidar dl,
                        rgb_queue := rgb_queue st @ to_rgb dl\<rparr>"
  have w1: "world_tick (record_ticks w i) st = Inr st1"
    by (simp add: world_tick_def dl st1_def)
  define st2 where "st2 = record_depth (record_events st1)"
  have q: "lidar_queue st2 = lidar_queue st @ to_lidar dl" and p: "point_clouds st2 = point_clouds st"
    by (simp_all add: st2_def record_depth_lidar record_events_lidar st1_def)
  from n q have "lidar_subpackets_per_pcl a \<le> length (lidar_queue st2)" by simp
  from record_lidar_forms [OF k this] obtain st3 where
    l: "record_lidar a k st2 = Inr st3" and
    p3: "length (point_clouds st3) = Suc (length (point_clouds st2))" by auto
  have "record_tick a k w i st = Inr (record_rgb st3)"
    using w1 t l by (simp add: record_tick_def st2_def)
  with p3 p show ?thesis by (simp add: record_rgb_lidar)
qed

lemma recording_forms:
  assumes k: "k \<noteq> 0"
    and d: "\<And>i. i < nat (ticks_to_record a) \<Longrightarrow>
              delivers_lidar (lidar_subpackets_per_pcl a) (record_ticks w i) \<and> traffic_lights w i = None"
  shows "\<exists>st'. recording a k w st = Inr st' \<and>
           length (point_clouds st') = length (point_clouds st) + nat (ticks_to_record a)"
proof -
  have "\<exists>s'. for_range 0 (nat (ticks_to_record a)) (record_tick a k w) st = Inr s' \<and> True \<and>
          length (point_clouds s') = length (point_clouds st) + nat (ticks_to_record a)"
    by (rule for_range_progress [where P = "\<lambda>s. True"]) (simp_all add: record_tick_forms k d)
  then show ?thesis by (simp add: recording_def)
qed

section \<open>Lemmas on the replay\<close>

lemma take1_spec_drain:
  "take 1 (spec_drain frames c t) =
     (if c < length frames \<and> snd (frames ! c) \<le> t then [frames ! c] else [])"
proof (cases "c < length frames")
  case True
  then have "drop c frames = frames ! c # drop (Suc c) frames"
    by (simp add: Cons_nth_drop_Suc)
  then show ?thesis using True by (simp add: spec_drain_def)
next
  case False
  then show ?thesis by (simp add: spec_drain_def)
qed

lemma check_lidar_eq:
  assumes "\<forall>r\<in>set (take 1 (spec_drain clouds (lidar_index v) t)). viz_point_cloud scr (fst r) = None"
  shows "check_lidar scr clouds t v =
     Inr (v\<lparr>displayed := displayed v @ map (\<lambda>r. Viz_point_cloud (fst r)) (take 1 (spec_drain clouds (lidar_index v) t)),
            lidar_index := lidar_index v + length (take 1 (spec_drain clouds (lidar_index v) t))\<rparr>)"
  using assms unfolding take1_spec_drain by (simp add: check_lidar_def at_row_def)

lemma check_rgb_eq:
  assumes "\<forall>r\<in>set (take 1 (spec_drain images (rgb_index v) t)). viz_rgb_image scr (fst r) = None"
  shows "check_rgb scr images t v =
     Inr (v\<lparr>displayed := displayed v @ map (\<lambda>r. Viz_rgb_image (fst r)) (take 1 (spec_drain images (rgb_index v) t)),
            rgb_index := rgb_index v + length (take 1 (spec_drain images (rgb_index v) t))\<rparr>)"
  using assms unfolding take1_spec_drain by (simp add: check_rgb_def at_row_def)

lemma check_lidar_index:
  assumes "check_lidar scr clouds t v = Inr v'"
  shows "lidar_index v \<le> lidar_index v' \<and> rgb_index v' = rgb_index v \<and>
    (lidar_index v \<le> length clouds \<longrightarrow> lidar_index v' \<le> length clouds) \<and>
    reference_emissions (displayed v') = reference_emissions (displayed v)"
  using assms
  by (auto simp: check_lidar_def at_row_def reference_emissions_def
      split: sum.splits if_splits option.splits)

lemma check_rgb_index:
  assumes "check_rgb scr images t v = Inr v'"
  shows "rgb_index v \<le> rgb_index v' \<and> lidar_index v' = lidar_index v \<and>
    (rgb_index v \<le> length images \<longrightarrow> rgb_index v' \<le> length images) \<and>
    reference_emissions (displayed v') = reference_emissions (displayed v)"
  using assms
  by (auto simp: check_rgb_def at_row_def reference_emissions_def
      split: sum.splits if_splits option.splits)

lemma check_lidar_returns:
  assumes "\<forall>r\<in>set clouds. viz_point_cloud scr (fst r) = None \<or> viz_point_cloud scr (fst r) = Some IndexError"
  shows "\<exists>v'. check_lidar scr clouds t v = Inr v'"
proof (cases "lidar_index v < length clouds")
  case True
  then have "clouds ! lidar_index v \<in> set clouds" by simp
  with assms have "viz_point_cloud scr (fst (clouds ! lidar_index v)) = None \<or>
      viz_point_cloud scr (fst (clouds ! lidar_index v)) = Some IndexError" by blast
  then show ?thesis using True by (auto simp: check_lidar_def at_row_def)
next
  case False
  then show ?thesis by (simp add: check_lidar_def at_row_def)
qed

lemma check_rgb_returns:
  assumes "\<forall>r\<in>set images. viz_rgb_image scr (fst r) = None \<or> viz_rgb_image scr (fst r) = Some IndexError"
  shows "\<exists>v'. check_rgb scr images t v = Inr v'"
proof (cases "rgb_index v < length images")
  case True
  then have "images ! rgb_index v \<in> set images" by simp
  with assms have "viz_rgb_image scr (fst (images ! rgb_index v)) = None \<or>
      viz_rgb_image scr (fst (images ! rgb_index v)) = Some IndexError" by blast
  then show ?thesis using True by (auto simp: check_rgb_def at_row_def)
next
  case False
  then show ?thesis by (simp add: check_rgb_def at_row_def)
qed

lemma replay_step_parts:
  assumes "replay_step scr s i v = Inr v'"
  shows "\<exists>ev d v1.
    check_lidar scr (lidar_clouds s) (snd ev)
       (v\<lparr>displayed := displayed v @ [Viz_events (fst ev), Viz_depth_image (fst d)]\<rparr>) = Inr v1 \<and>
    check_rgb scr (rgb_images s) (snd ev) v1 = Inr v'"
  using assms by (auto simp: replay_step_def split: sum.splits option.splits)

lemma replay_step_index:
  assumes "replay_step scr s i v = Inr v'"
  shows "lidar_index v \<le> lidar_index v' \<and> rgb_index v \<le> rgb_index v' \<and>
    (lidar_index v \<le> length (lidar_clouds s) \<longrightarrow> lidar_index v' \<le> length (lidar_clouds s)) \<and>
    (rgb_index v \<le> length (rgb_images s) \<longrightarrow> rgb_index v' \<le> length (rgb_images s)) \<and>
    reference_emissions (displayed v') = Suc (reference_emissions (displayed v))"
proof -
  from replay_step_parts [OF assms] obtain ev d v1 where
    l: "check_lidar scr (lidar_clouds s) (snd ev)
       (v\<lparr>displayed := displayed v @ [Viz_events (fst ev), Viz_depth_image (fst d)]\<rparr>) = Inr v1"
    and c: "check_rgb scr (rgb_images s) (snd ev) v1 = Inr v'"
    by blast
  from check_lidar_index [OF l] check_rgb_index [OF c] show ?thesis
    by (simp add: reference_emissions_def)
qed

lemma replay_from_index:
  "replay_from scr s i n v = Inr v' \<Longrightarrow>
   lidar_index v \<le> lidar_index v' \<and> rgb_index v \<le> rgb_index v' \<and>
    (lidar_index v \<le> length (lidar_clouds s) \<longrightarrow> lidar_index v' \<le> length (lidar_clouds s)) \<and>
    (rgb_index v \<le> length (rgb_images s) \<longrightarrow> rgb_index v' \<le> length (rgb_images s))"
proof (induction n arbitrary: i v)
  case 0
  then show ?case by simp
next
  case (Suc n)
  from Suc.prems obtain v1 where s1: "replay_step scr s i v = Inr v1"
    by (auto split: sum.splits)
  note b1 = replay_step_index [OF s1]
  show ?case
  proof (cases "wait_key scr i = 27")
    case True
    with Suc.prems s1 have "v' = v1" by simp
    with b1 show ?thesis by simp
  next
    case False
    with Suc.prems s1 have "replay_from scr s (Suc i) n v1 = Inr v'" by simp
    from Suc.IH [OF this] b1 show ?thesis by auto
  qed
qed

lemma replay_step_returns:
  assumes "i < length (events s)" "i < length (depth_images s)"
    "viz_events scr (fst (events s ! i)) = None" "viz_depth_image scr (fst (depth_images s ! i)) = None"
    "\<forall>r\<in>set (lidar_clouds s). viz_point_cloud scr (fst r) = None \<or> viz_point_cloud scr (fst r) = Some IndexError"
    "\<forall>r\<in>set (rgb_images s). viz_rgb_image scr (fst r) = None \<or> viz_rgb_image scr (fst r) = Some IndexError"
  shows "\<exists>v'. replay_step scr s i v = Inr v'"
proof -
  from check_lidar_returns [OF assms(5)] obtain v1 where
    l: "check_lidar scr (lidar_clouds s) (snd (events s ! i))
       (v\<lparr>displayed := displayed v @ [Viz_events (fst (events s ! i)), Viz_depth_image (fst (depth_images s ! i))]\<rparr>) = Inr v1"
    by blast
  from check_rgb_returns [OF assms(6)] obtain v' where
    "check_rgb scr (rgb_images s) (snd (events s ! i)) v1 = Inr v'" by blast
  with l assms(1-4) show ?thesis by (simp add: replay_step_def at_row_def)
qed

lemma replay_from_completes:
  assumes "i + n \<le> length (events s)" "i + n \<le> length (depth_images s)"
    "\<And>j. i \<le> j \<Longrightarrow> j < i + n \<Longrightarrow>
       wait_key scr j \<noteq> 27 \<and> viz_events scr (fst (events s ! j)) = None \<and>
       viz_depth_image scr (fst (depth_images s ! j)) = None"
    "\<forall>r\<in>set (lidar_clouds s). viz_point_cloud scr (fst r) = None \<or> viz_point_cloud scr (fst r) = Some IndexError"
    "\<forall>r\<in>set (rgb_images s). viz_rgb_image scr (fst r) = None \<or> viz_rgb_image scr (fst r) = Some IndexError"
  shows "\<exists>v'. replay_from scr s i n v = Inr v' \<and>
           reference_emissions (displayed v') = reference_emissions (displayed v) + n"
  using assms(1,2,3)
proof (induction n arbitrary: i v)
  case 0
  then show ?case by simp
next
  case (Suc n)
  from Suc.prems(1,2) have lt: "i < length (events s)" "i < length (depth_images s)" by simp_all
  have here: "wait_key scr i \<noteq> 27 \<and> viz_events scr (fst (events s ! i)) = None \<and>
       viz_depth_image scr (fst (depth_images s ! i)) = None"
    using Suc.prems(3) [of i] by simp
  from replay_step_returns [OF lt _ _ assms(4,5)] here
  obtain v1 where s1: "replay_step scr s i v = Inr v1" by blast
  have "\<exists>v'. replay_from scr s (Suc i) n v1 = Inr v' \<and>
           reference_emissions (displayed v') = reference_emissions (displayed v1) + n"
    using Suc.prems by (intro Suc.IH) simp_all
  with s1 here replay_step_index [OF s1] show ?case by auto
qed

section \<open>The replay of a recording\<close>

text \<open>
  Claim C1, as amended. The claim says that a reference step emits every not yet emitted
  frame of a modality whose timestamp is at most the reference timestamp. The code tests one
  frame per modality and step (an \<open>if\<close>, not a loop), and a display call can raise. For
  every reference index \<open>i\<close> that has an events row and a depth image, and when the display
  calls for these two and for the frame at each cursor return: the step returns; it displays
  the events, the depth image, then at most one point cloud and then at most one RGB image,
  namely the first frame of the run that the specification drains (\<open>take 1\<close> of
  \<open>spec_drain\<close>), and it advances each cursor by the number of frames of its modality that
  it has displayed.
\<close>

theorem replay_step_emits_one:
  assumes "i < length (events s)" "i < length (depth_images s)"
    "viz_events scr (fst (events s ! i)) = None"
    "viz_depth_image scr (fst (depth_images s ! i)) = None"
    "\<forall>r\<in>set (take 1 (spec_drain (lidar_clouds s) (lidar_index v) (snd (events s ! i)))).
       viz_point_cloud scr (fst r) = None"
    "\<forall>r\<in>set (take 1 (spec_drain (rgb_images s) (rgb_index v) (snd (events s ! i)))).
       viz_rgb_image scr (fst r) = None"
  shows "\<exists>v'. replay_step scr s i v = Inr v' \<and>
    displayed v' =
      displayed v @ [Viz_events (fst (events s ! i)), Viz_depth_image (fst (depth_images s ! i))]
        @ map (\<lambda>r. Viz_point_cloud (fst r))
            (take 1 (spec_drain (lidar_clouds s) (lidar_index v) (snd (events s ! i))))
        @ map (\<lambda>r. Viz_rgb_image (fst r))
            (take 1 (spec_drain (rgb_images s) (rgb_index v) (snd (events s ! i)))) \<and>
    lidar_index v' =
      lidar_index v + length (take 1 (spec_drain (lidar_clouds s) (lidar_index v) (snd (events s ! i)))) \<and>
    rgb_index v' =
      rgb_index v + length (take 1 (spec_drain (rgb_images s) (rgb_index v) (snd (events s ! i))))"
proof -
  let ?t = "snd (events s ! i)"
  let ?v0 = "v\<lparr>displayed := displayed v @
      [Viz_events (fst (events s ! i)), Viz_depth_image (fst (depth_images s ! i))]\<rparr>"
  let ?L = "take 1 (spec_drain (lidar_clouds s) (lidar_index v) ?t)"
  let ?v1 = "?v0\<lparr>displayed := displayed ?v0 @ map (\<lambda>r. Viz_point_cloud (fst r)) ?L,
      lidar_index := lidar_index ?v0 + length ?L\<rparr>"
  have l: "check_lidar scr (lidar_clouds s) ?t ?v0 = Inr ?v1"
    using check_lidar_eq [of "lidar_clouds s" ?v0 ?t scr] assms(5) by simp
  have c: "check_rgb scr (rgb_images s) ?t ?v1 =
      Inr (?v1\<lparr>displayed := displayed ?v1 @ map (\<lambda>r. Viz_rgb_image (fst r))
                   (take 1 (spec_drain (rgb_images s) (rgb_index ?v1) ?t)),
               rgb_index := rgb_index ?v1 + length (take 1 (spec_drain (rgb_images s) (rgb_index ?v1) ?t))\<rparr>)"
    using check_rgb_eq [of "rgb_images s" ?v1 ?t scr] assms(6) by simp
  show ?thesis
    using assms(1-4) l c by (simp add: replay_step_def at_row_def)
qed

text \<open>
  The step for the only reference frame of \<open>seq_two_clouds\<close> on the plain screen: one point
  cloud is displayed and the LiDAR cursor is at 1.
\<close>

theorem replay_step_emits_one_witness:
  "replay_step plain_screen seq_two_clouds 0 viewer0 =
     Inr \<lparr>lidar_index = 1, rgb_index = 0,
          displayed = [Viz_events [0], Viz_depth_image [0], Viz_point_cloud [1]]\<rparr>"
proof -
  have h1: "0 < length (events seq_two_clouds)" by (simp add: seq_two_clouds_def)
  have h2: "0 < length (depth_images seq_two_clouds)" by (simp add: seq_two_clouds_def)
  have h3: "viz_events plain_screen (fst (events seq_two_clouds ! 0)) = None"
    by (simp add: plain_screen_def)
  have h4: "viz_depth_image plain_screen (fst (depth_images seq_two_clouds ! 0)) = None"
    by (simp add: plain_screen_def)
  have h5: "\<forall>r\<in>set (take 1 (spec_drain (lidar_clouds seq_two_clouds) (lidar_index viewer0)
        (snd (events seq_two_clouds ! 0)))). viz_point_cloud plain_screen (fst r) = None"
    by (simp add: plain_screen_def)
  have h6: "\<forall>r\<in>set (take 1 (spec_drain (rgb_images seq_two_clouds) (rgb_index viewer0)
        (snd (events seq_two_clouds ! 0)))). viz_rgb_image plain_screen (fst r) = None"
    by (simp add: plain_screen_def)
  show ?thesis
    using replay_step_emits_one [OF h1 h2 h3 h4 h5 h6]
    by (simp add: seq_two_clouds_def viewer0_def spec_drain_def replay_step_def at_row_def
        check_lidar_def check_rgb_def plain_screen_def)
qed

text \<open>
  Counterexample to C1 as stated. In \<open>seq_two_clouds\<close> the reference frame has the timestamp
  2 and both point clouds (timestamps 0 and 1) are eligible, so the claim has both emitted
  at reference index 0. The replay, on a screen on which every call returns, ends with one
  point cloud displayed and the cursor at 1. And in \<open>seq_wide\<close> the event lies outside the
  image of 1280 columns: the replay raises IndexError in the display call for the reference
  frame and emits nothing.
\<close>

theorem replay_drain_counterexample:
  "spec_drain (lidar_clouds seq_two_clouds) 0 2 = [([1], 0), ([2], 1)] \<and>
   replay plain_screen seq_two_clouds =
     Inr \<lparr>lidar_index = 1, rgb_index = 0,
          displayed = [Viz_events [0], Viz_depth_image [0], Viz_point_cloud [1]]\<rparr> \<and>
   replay screen_1280 seq_wide = Inl IndexError"
  by (simp add: seq_two_clouds_def seq_wide_def spec_drain_def replay_def replay_step_def
      at_row_def check_lidar_def check_rgb_def viewer0_def plain_screen_def screen_1280_def)

text \<open>
  Claim C6, as amended. Both cursors start at 0. Over any stretch of the loop (from any
  index, for any number of iterations, from any viewer whose cursors are within their
  sequences, on any screen) that ends without exception, neither cursor decreases and
  neither exceeds the length of its sequence. The replay as a whole returns without
  exception, with one reference emission per events row and cursors within their sequences,
  whatever the lengths of the point-cloud and RGB sequences (also 0), provided that there are
  at least as many depth images as events rows, that the escape key is never pressed, that
  the display calls for the events and the depth images return, and that those for the point
  clouds and RGB images raise nothing but IndexError: the depth image is read and the events
  and the depth image are displayed outside of the try blocks, the try blocks swallow
  IndexError only, and the escape key leaves the loop.
\<close>

theorem replay_cursors:
  "lidar_index (viewer0 :: 'a viewer) = 0 \<and> rgb_index (viewer0 :: 'a viewer) = 0 \<and>
   (replay_from scr s i n v = Inr v' \<and>
    lidar_index v \<le> length (lidar_clouds s) \<and> rgb_index v \<le> length (rgb_images s) \<longrightarrow>
      lidar_index v \<le> lidar_index v' \<and> lidar_index v' \<le> length (lidar_clouds s) \<and>
      rgb_index v \<le> rgb_index v' \<and> rgb_index v' \<le> length (rgb_images s)) \<and>
   (length (events r) \<le> length (depth_images r) \<and>
    (\<forall>j<length (events r).
       wait_key sc j \<noteq> 27 \<and> viz_events sc (fst (events r ! j)) = None \<and>
       viz_depth_image sc (fst (depth_images r ! j)) = None) \<and>
    (\<forall>x\<in>set (lidar_clouds r).
       viz_point_cloud sc (fst x) = None \<or> viz_point_cloud sc (fst x) = Some IndexError) \<and>
    (\<forall>x\<in>set (rgb_images r).
       viz_rgb_image sc (fst x) = None \<or> viz_rgb_image sc (fst x) = Some IndexError) \<longrightarrow>
      (\<exists>u. replay sc r = Inr u \<and> reference_emissions (displayed u) = length (events r) \<and>
           lidar_index u \<le> length (lidar_clouds r) \<and> rgb_index u \<le> length (rgb_images r)))"
proof -
  have c: "\<exists>u. replay sc r = Inr u \<and> reference_emissions (displayed u) = length (events r) \<and>
           lidar_index u \<le> length (lidar_clouds r) \<and> rgb_index u \<le> length (rgb_images r)"
    if d: "length (events r) \<le> length (depth_images r)"
      and k: "\<forall>j<length (events r).
       wait_key sc j \<noteq> 27 \<and> viz_events sc (fst (events r ! j)) = None \<and>
       viz_depth_image sc (fst (depth_images r ! j)) = None"
      and l: "\<forall>x\<in>set (lidar_clouds r).
       viz_point_cloud sc (fst x) = None \<or> viz_point_cloud sc (fst x) = Some IndexError"
      and g: "\<forall>x\<in>set (rgb_images r).
       viz_rgb_image sc (fst x) = None \<or> viz_rgb_image sc (fst x) = Some IndexError"
  proof -
    have "\<exists>u. replay_from sc r 0 (length (events r)) viewer0 = Inr u \<and>
        reference_emissions (displayed u) = length (events r)"
      using replay_from_completes [where i = 0 and n = "length (events r)" and s = r
          and scr = sc and v = viewer0] d k l g
      by (simp add: viewer0_def reference_emissions_def)
    then obtain u where u: "replay sc r = Inr u"
      and e: "reference_emissions (displayed u) = length (events r)"
      by (auto simp: replay_def)
    from replay_from_index [of sc r 0 "length (events r)" viewer0 u] u
    have "lidar_index u \<le> length (lidar_clouds r) \<and> rgb_index u \<le> length (rgb_images r)"
      by (simp add: replay_def viewer0_def)
    with u e show ?thesis by blast
  qed
  show ?thesis
    using c replay_from_index [of scr s i n v v'] by (simp add: viewer0_def)
qed

text \<open>
  The replay of \<open>seq_no_clouds\<close> (two reference frames, no point cloud, one RGB image) on
  the plain screen: the second iteration alone moves the RGB cursor from 0 to 1, and the
  whole replay makes two reference emissions with the LiDAR cursor at 0 and the RGB cursor
  at 1.
\<close>

theorem replay_cursors_witness:
  "replay_from plain_screen seq_no_clouds 1 1
     \<lparr>lidar_index = 0, rgb_index = 0, displayed = [Viz_events [0], Viz_depth_image [0]]\<rparr> =
   Inr \<lparr>lidar_index = 0, rgb_index = 1,
        displayed = [Viz_events [0], Viz_depth_image [0], Viz_events [1], Viz_depth_image [1],
                     Viz_rgb_image [5]]\<rparr> \<and>
   replay plain_screen seq_no_clouds =
   Inr \<lparr>lidar_index = 0, rgb_index = 1,
        displayed = [Viz_events [0], Viz_depth_image [0], Viz_events [1], Viz_depth_image [1],
                     Viz_rgb_image [5]]\<rparr> \<and>
   reference_emissions
     [Viz_events [0], Viz_depth_image [0], Viz_events [1], Viz_depth_image [1],
      Viz_rgb_image [5 :: nat]] = length (events seq_no_clouds) \<and>
   length (lidar_clouds seq_no_clouds) = 0"
proof -
  have h: "length (events seq_no_clouds) \<le> length (depth_images seq_no_clouds) \<and>
    (\<forall>j<length (events seq_no_clouds).
       wait_key plain_screen j \<noteq> 27 \<and> viz_events plain_screen (fst (events seq_no_clouds ! j)) = None \<and>
       viz_depth_image plain_screen (fst (depth_images seq_no_clouds ! j)) = None) \<and>
    (\<forall>x\<in>set (lidar_clouds seq_no_clouds).
       viz_point_cloud plain_screen (fst x) = None \<or> viz_point_cloud plain_screen (fst x) = Some IndexError) \<and>
    (\<forall>x\<in>set (rgb_images seq_no_clouds).
       viz_rgb_image plain_screen (fst x) = None \<or> viz_rgb_image plain_screen (fst x) = Some IndexError)"
    by (simp add: seq_no_clouds_def plain_screen_def)
  show ?thesis
    using h replay_cursors [where scr = plain_screen and s = seq_no_clouds and i = 1 and n = 1
      and v = "\<lparr>lidar_index = 0, rgb_index = 0, displayed = [Viz_events [0], Viz_depth_image [0]]\<rparr>"
      and v' = "\<lparr>lidar_index = 0, rgb_index = 1,
        displayed = [Viz_events [0], Viz_depth_image [0], Viz_events [1], Viz_depth_image [1],
                     Viz_rgb_image [5]]\<rparr>"
      and r = seq_no_clouds and sc = plain_screen]
    by (simp add: seq_no_clouds_def plain_screen_def replay_def replay_step_def at_row_def
      check_lidar_def check_rgb_def viewer0_def reference_emissions_def)
qed

text \<open>
  Counterexample to C6 as stated. \<open>seq_no_depth\<close> has one reference frame and no depth
  image: the replay raises IndexError. \<open>seq_no_clouds\<close> has two reference frames: with the
  escape key pressed in the first iteration the replay ends after one reference emission.
  \<open>seq_wide\<close> has a depth image for its reference frame, and its event lies outside the
  image of 1280 columns: the replay raises IndexError in the display call.
\<close>

theorem replay_completes_counterexample:
  "replay plain_screen seq_no_depth = Inl IndexError \<and>
   replay escape_screen seq_no_clouds =
     Inr \<lparr>lidar_index = 0, rgb_index = 0, displayed = [Viz_events [0], Viz_depth_image [0]]\<rparr> \<and>
   length (events seq_wide) \<le> length (depth_images seq_wide) \<and>
   replay screen_1280 seq_wide = Inl IndexError"
  by (simp add: seq_no_depth_def seq_no_clouds_def seq_wide_def replay_def replay_step_def
      at_row_def check_lidar_def check_rgb_def viewer0_def plain_screen_def escape_screen_def
      screen_1280_def)

section \<open>Evaluation of the concrete inputs\<close>

lemmas input_defs =
  args_default_def args_short_def args_full_rate_def args_pandora_def args_slow_def
  steady_world_def csv_failing_world_def late_discard_ticks_def one_each_def frame_def
  depth_frame_def ego0_def vehicles0_def pedestrians0_def recorded_short_def
  recorded_full_rate_def

lemmas run_defs =
  session_def try_block_def warm_up_def recording_def record_tick_def world_tick_def
  clear_sensor_queues_def record_events_def record_depth_def record_lidar_def record_rgb_def
  lidar_subpackets_per_pcl_def merge_subpackets_def saved_sequence_def base_name_def
  keep_lidar_every_x_idx_def ticks_to_discard_def ticks_to_record_def py_int_def recorder0_def
  teardown_def ego_destroy_def pedestrian_destroy_def spawn_order_def ego_spawned_def
  pedestrian_spawned_def returns_def delivers_lidar_def Let_def

lemma for_range_numeral:
  "for_range i (numeral n) body s =
     (case body i s of Inl e \<Rightarrow> Inl e | Inr s' \<Rightarrow> for_range (Suc i) (pred_numeral n) body s')"
  by (simp add: numeral_eq_Suc)

lemma warm_up_short: "warm_up args_short steady_world recorder0 = Inr recorder0"
  by (simp add: input_defs run_defs)

lemma recording_short: "recording args_short 2 steady_world recorder0 = Inr recorded_short"
  by (simp add: input_defs run_defs for_range_numeral)

lemma warm_up_full_rate: "warm_up args_full_rate steady_world recorder0 = Inr recorder0"
  by (simp add: input_defs run_defs)

lemma recording_full_rate:
  "recording args_full_rate 1 steady_world recorder0 = Inr recorded_full_rate"
  by (simp add: input_defs run_defs for_range_numeral)


section \<open>The recording loop\<close>

lemma for_range_cong:
  assumes "\<And>j s. i \<le> j \<Longrightarrow> j < i + n \<Longrightarrow> body j s = body' j s"
  shows "for_range i n body s = for_range i n body' s"
  using assms
proof (induction n arbitrary: i s)
  case 0
  show ?case by simp
next
  case (Suc n)
  have b: "body i s = body' i s" using Suc.prems [of i s] by simp
  have "for_range (Suc i) n body s' = for_range (Suc i) n body' s'" for s'
    by (rule Suc.IH) (simp add: Suc.prems)
  with b show ?case by (simp split: sum.splits)
qed

lemma for_range_raises:
  assumes "\<And>l s. i \<le> l \<Longrightarrow> l < i + j \<Longrightarrow> \<exists>s'. body l s = Inr s'"
    and "\<And>s. body (i + j) s = Inl e" and "j < n"
  shows "for_range i n body s = Inl e"
  using assms
proof (induction n arbitrary: i j s)
  case 0
  then show ?case by simp
next
  case (Suc n)
  note ret = Suc.prems(1) and fail = Suc.prems(2) and less = Suc.prems(3) and IH = Suc.IH
  show ?case
  proof (cases j)
    case 0
    with fail [of s] show ?thesis by simp
  next
    case j: (Suc j')
    from ret [of i s] j obtain s' where s': "body i s = Inr s'" by auto
    have "for_range (Suc i) n body s' = Inl e"
    proof (rule IH [where j = j'])
      fix l s assume "Suc i \<le> l" "l < Suc i + j'"
      then show "\<exists>s'. body l s = Inr s'" using ret [of l s] j by simp
    next
      fix s show "body (Suc i + j') s = Inl e" using fail [of s] j by simp
    next
      show "j' < n" using less j by simp
    qed
    with s' show ?thesis by simp
  qed
qed

lemma world_tick_returns: "returns r \<Longrightarrow> \<exists>st'. world_tick r st = Inr st'"
  by (auto simp: returns_def world_tick_def split: sum.splits)

lemma record_tick_returns:
  assumes "k \<noteq> 0" "returns (record_ticks w i)" "traffic_lights w i = None"
  shows "\<exists>st'. record_tick a k w i st = Inr st'"
proof -
  from world_tick_returns [OF assms(2)] obtain st1 where
    t: "world_tick (record_ticks w i) st = Inr st1" by blast
  have "\<exists>st2. record_lidar a k (record_depth (record_events st1)) = Inr st2"
    using assms(1) by (simp add: record_lidar_def Let_def)
  with t assms(3) show ?thesis by (auto simp: record_tick_def)
qed

lemma warm_up_raises:
  assumes "returns (first_tick w)" "start_controller w = None"
    "j < nat (ticks_to_discard a)" "\<And>i. i < j \<Longrightarrow> returns (discard_ticks w i)"
    "discard_ticks w j = Inl e"
  shows "warm_up a w st = Inl e"
proof -
  from world_tick_returns [OF assms(1)] obtain st1 where
    t: "world_tick (first_tick w) st = Inr st1" by blast
  have "for_range 0 (nat (ticks_to_discard a)) (\<lambda>i. world_tick (discard_ticks w i)) st1 = Inl e"
  proof (rule for_range_raises [where j = j])
    fix l s assume "0 \<le> l" "l < 0 + j"
    then show "\<exists>s'. world_tick (discard_ticks w l) s = Inr s'"
      using assms(4) [of l] by (simp add: world_tick_returns)
  next
    fix s show "world_tick (discard_ticks w (0 + j)) s = Inl e"
      by (simp add: assms(5) world_tick_def)
  next
    show "j < nat (ticks_to_discard a)" by (rule assms(3))
  qed
  with t assms(2) show ?thesis by (simp add: warm_up_def)
qed

lemma recording_raises:
  assumes "k \<noteq> 0" "j < nat (ticks_to_record a)"
    "\<And>i. i < j \<Longrightarrow> returns (record_ticks w i) \<and> traffic_lights w i = None"
    "record_ticks w j = Inl e"
  shows "recording a k w st = Inl e"
  unfolding recording_def
proof (rule for_range_raises [where j = j])
  fix l s assume "0 \<le> l" "l < 0 + j"
  then show "\<exists>s'. record_tick a k w l s = Inr s'"
    using assms(3) [of l] assms(1) by (simp add: record_tick_returns)
next
  fix s show "record_tick a k w (0 + j) s = Inl e"
    by (simp add: assms(4) record_tick_def world_tick_def)
next
  show "j < nat (ticks_to_record a)" by (rule assms(2))
qed

lemma session_ticks_used:
  assumes "\<And>i. i < nat (ticks_to_discard a) \<Longrightarrow> dt i = discard_ticks w i"
    "\<And>i. i < nat (ticks_to_record a) \<Longrightarrow> rt i = record_ticks w i \<and> tf i = traffic_lights w i"
  shows "session a (w\<lparr>discard_ticks := dt, record_ticks := rt, traffic_lights := tf\<rparr>) ego vs ps =
         session a w ego vs ps"
proof -
  let ?w = "w\<lparr>discard_ticks := dt, record_ticks := rt, traffic_lights := tf\<rparr>"
  have d: "for_range 0 (nat (ticks_to_discard a)) (\<lambda>i. world_tick (discard_ticks ?w i)) st =
           for_range 0 (nat (ticks_to_discard a)) (\<lambda>i. world_tick (discard_ticks w i)) st" for st
    by (rule for_range_cong) (simp add: assms(1))
  have wu: "warm_up a ?w st = warm_up a w st" for st
    unfolding warm_up_def d by (simp split: sum.splits option.splits)
  have r: "recording a k ?w st = recording a k w st" for k st
    unfolding recording_def
    by (rule for_range_cong) (simp add: record_tick_def assms(2) split: sum.splits option.splits)
  have "try_block a k ?w = try_block a k w" for k
    unfolding try_block_def wu r by (simp split: sum.splits option.splits)
  then show ?thesis by (simp add: session_def split: sum.splits)
qed

text \<open>
  Claim C4, as amended. The number of sub-emitters is 3 for the Pandora model and 1
  otherwise. In an iteration with at least that many measurements in the LiDAR queue, and
  with a decimation factor other than zero, the LiDAR step returns; the measurements removed
  are the first \<open>N\<close> of the queue and the rest of the queue stays as it is; the point cloud
  formed is the concatenation of their payloads in queue order, so its length is the sum of
  their lengths; and when it is retained, it is retained with the timestamp of the first of
  them. With a decimation factor of zero (a tick rate below the LiDAR rate) the step raises
  ZeroDivisionError at the test of line 180, before any measurement is removed. With fewer
  than \<open>N\<close> measurements in the queue the step changes nothing.
\<close>

theorem stream_merger:
  "lidar_subpackets_per_pcl a = (if lidar_is_pandora a then 3 else 1) \<and>
   (k \<noteq> 0 \<and> lidar_subpackets_per_pcl a \<le> length (lidar_queue st) \<longrightarrow>
      (\<exists>st'. record_lidar a k st = Inr st' \<and>
         take (lidar_subpackets_per_pcl a) (lidar_queue st) @ lidar_queue st' = lidar_queue st \<and>
         point_clouds st' =
           point_clouds st @ [concat (map raw_data (take (lidar_subpackets_per_pcl a) (lidar_queue st)))] \<and>
         length (last (point_clouds st')) =
           sum_list (map (\<lambda>m. length (raw_data m)) (take (lidar_subpackets_per_pcl a) (lidar_queue st))) \<and>
         (current_lidar_idx st mod k = 0 \<longrightarrow>
            lidar_clouds_queue st' =
              lidar_clouds_queue st @
                [(last (point_clouds st'),
                  timestamp (hd (take (lidar_subpackets_per_pcl a) (lidar_queue st))))]))) \<and>
   (lidar_subpackets_per_pcl a \<le> length (lidar_queue sv) \<longrightarrow>
      record_lidar a 0 sv = Inl ZeroDivisionError) \<and>
   (length (lidar_queue su) < lidar_subpackets_per_pcl a \<longrightarrow> record_lidar a k su = Inr su)"
proof -
  have n: "0 < lidar_subpackets_per_pcl a" by (simp add: lidar_subpackets_per_pcl_def)
  have hd: "hd (take (lidar_subpackets_per_pcl a) (lidar_queue st)) = hd (lidar_queue st)"
    using n by (cases "lidar_queue st"; cases "lidar_subpackets_per_pcl a") simp_all
  show ?thesis
    unfolding hd
    by (simp add: record_lidar_def Let_def merge_subpackets_def length_concat comp_def
        lidar_subpackets_per_pcl_def)
qed

text \<open>
  With the Pandora model and four measurements in the queue, the first three are merged into
  one cloud with the timestamp of the first, and with a factor of zero the step raises; with
  two measurements nothing happens.
\<close>

theorem stream_merger_witness:
  "lidar_subpackets_per_pcl args_pandora = 3 \<and>
   record_lidar args_pandora 20 (recorder0\<lparr>lidar_queue := [frame 1, frame 2, frame 3, frame 4]\<rparr>) =
     Inr (recorder0\<lparr>lidar_queue := [frame 4], lidar_clouds_queue := [([1, 2, 3], 1)],
           current_lidar_idx := 1, point_clouds := [[1, 2, 3]]\<rparr>) \<and>
   record_lidar args_pandora 0 (recorder0\<lparr>lidar_queue := [frame 1, frame 2, frame 3, frame 4]\<rparr>) =
     Inl ZeroDivisionError \<and>
   record_lidar args_pandora 20 (recorder0\<lparr>lidar_queue := [frame 1, frame 2]\<rparr>) =
     Inr (recorder0\<lparr>lidar_queue := [frame 1, frame 2]\<rparr>)"
  using stream_merger [where a = args_pandora and k = 20
      and st = "recorder0\<lparr>lidar_queue := [frame 1, frame 2, frame 3, frame 4]\<rparr>"
      and sv = "recorder0\<lparr>lidar_queue := [frame 1, frame 2, frame 3, frame 4]\<rparr>"
      and su = "recorder0\<lparr>lidar_queue := [frame 1, frame 2]\<rparr>"]
  by (simp add: input_defs run_defs)

text \<open>
  Counterexample to C4 as stated: the Pandora model with the tick rate 5 and the LiDAR rate
  10. The factor is 0; in a tick where the queue holds four measurements, at least the three
  of a cloud, the step raises ZeroDivisionError instead of removing the first three, and the
  session ends without archive.
\<close>

theorem stream_merger_counterexample:
  "keep_lidar_every_x_idx args_pandora_slow = Inr 0 \<and>
   lidar_subpackets_per_pcl args_pandora_slow = 3 \<and>
   length (lidar_queue (recorder0\<lparr>lidar_queue := [frame 1, frame 2, frame 3, frame 4]\<rparr>)) = 4 \<and>
   record_lidar args_pandora_slow 0 (recorder0\<lparr>lidar_queue := [frame 1, frame 2, frame 3, frame 4]\<rparr>) =
     Inl ZeroDivisionError \<and>
   archive (session args_pandora_slow three_each_world ego0 vehicles0 pedestrians0) = None"
  by (simp add: input_defs run_defs args_pandora_slow_def three_each_world_def for_range_numeral)

text \<open>
  Claim C3, as amended. The counter starts at 0. With a decimation factor other than zero, a
  LiDAR step returns and adds one to the counter exactly when a cloud is formed, that is
  when the queue holds the \<open>N\<close> measurements, whether or not the cloud is retained; the
  cloud is appended to the recorded clouds exactly when, in addition, the counter before the
  step is a multiple of the factor. With a decimation factor of zero, a step that forms a
  cloud raises ZeroDivisionError at the test and the counter is not incremented. For a tick
  rate of 200, a LiDAR rate of 10, 3 s discarded, 10 s recorded and a single LiDAR, the
  factor is 20 and the run performs 600 discarded ticks and 2000 recorded ticks: its outcome
  does not depend on what a discarded tick from the 600th on or a recorded tick from the
  2000th on would do, and an exception of any of the first 600 discarded ticks or of any of
  the first 2000 recorded ticks, the earlier calls returning, is the exception of the run.
  In a world where no call fails and every recorded tick delivers at least one LiDAR
  measurement, the archive holds exactly 100 point clouds.
\<close>

theorem decimator_rule_and_count:
  "current_lidar_idx (recorder0 :: 'a recorder) = 0 \<and>
   (k \<noteq> 0 \<longrightarrow>
      (\<exists>st'. record_lidar a k (st :: 'a recorder) = Inr st' \<and>
         current_lidar_idx st' =
           current_lidar_idx st + (if lidar_subpackets_per_pcl a \<le> length (lidar_queue st) then 1 else 0) \<and>
         lidar_clouds_queue st' =
           lidar_clouds_queue st @
             (if lidar_subpackets_per_pcl a \<le> length (lidar_queue st) \<and> current_lidar_idx st mod k = 0
              then [(merge_subpackets (lidar_subpackets_per_pcl a) (lidar_queue st),
                     timestamp (hd (lidar_queue st)))]
              else []))) \<and>
   (lidar_subpackets_per_pcl a \<le> length (lidar_queue (sv :: 'a recorder)) \<longrightarrow>
      record_lidar a 0 sv = Inl ZeroDivisionError) \<and>
   (hz b = 200 \<and> lidar_hz b = 10 \<and> discard_duration b = 3 \<and> duration b = 10 \<and> \<not> lidar_is_pandora b \<longrightarrow>
      ticks_to_discard b = 600 \<and> ticks_to_record b = 2000 \<and> keep_lidar_every_x_idx b = Inr 20 \<and>
      session b
        (u\<lparr>discard_ticks := (\<lambda>i. if i < 600 then discard_ticks u i else dt i),
           record_ticks := (\<lambda>i. if i < 2000 then record_ticks u i else rt i),
           traffic_lights := (\<lambda>i. if i < 2000 then traffic_lights u i else tf i)\<rparr>) ego vs ps =
        session b (u :: 'a world) ego vs ps \<and>
      (returns (first_tick v) \<and> start_controller v = None \<and> j < 600 \<and>
       (\<forall>i<j. returns (discard_ticks v i)) \<and> discard_ticks v j = Inl e \<longrightarrow>
         raised (session b (v :: 'a world) ego vs ps) = Some e) \<and>
      (returns (first_tick x) \<and> start_controller x = None \<and>
       (\<forall>i<600. returns (discard_ticks x i)) \<and> l < 2000 \<and>
       (\<forall>i<l. returns (record_ticks x i) \<and> traffic_lights x i = None) \<and> record_ticks x l = Inl f \<longrightarrow>
         raised (session b (x :: 'a world) ego vs ps) = Some f) \<and>
      (returns (first_tick w) \<and> start_controller w = None \<and>
       (\<forall>i<600. returns (discard_ticks w i)) \<and>
       (\<forall>i<2000. delivers_lidar 1 (record_ticks w i) \<and> traffic_lights w i = None) \<and>
       savez w = None \<longrightarrow>
         (\<exists>s :: 'a sequence. archive (session b (w :: 'a world) ego vs ps) = Some s \<and>
            length (lidar_clouds s) = 100)))"
proof -
  have rule: "k \<noteq> 0 \<longrightarrow>
      (\<exists>st'. record_lidar a k st = Inr st' \<and>
         current_lidar_idx st' =
           current_lidar_idx st + (if lidar_subpackets_per_pcl a \<le> length (lidar_queue st) then 1 else 0) \<and>
         lidar_clouds_queue st' =
           lidar_clouds_queue st @
             (if lidar_subpackets_per_pcl a \<le> length (lidar_queue st) \<and> current_lidar_idx st mod k = 0
              then [(merge_subpackets (lidar_subpackets_per_pcl a) (lidar_queue st),
                     timestamp (hd (lidar_queue st)))]
              else []))"
    by (simp add: record_lidar_def Let_def)
  have zero: "lidar_subpackets_per_pcl a \<le> length (lidar_queue sv) \<longrightarrow>
      record_lidar a 0 sv = Inl ZeroDivisionError"
    by (simp add: record_lidar_def Let_def)
  have init: "current_lidar_idx (recorder0 :: 'a recorder) = 0"
    by (simp add: recorder0_def)
  have scen: "ticks_to_discard b = 600 \<and> ticks_to_record b = 2000 \<and> keep_lidar_every_x_idx b = Inr 20 \<and>
      session b
        (u\<lparr>discard_ticks := (\<lambda>i. if i < 600 then discard_ticks u i else dt i),
           record_ticks := (\<lambda>i. if i < 2000 then record_ticks u i else rt i),
           traffic_lights := (\<lambda>i. if i < 2000 then traffic_lights u i else tf i)\<rparr>) ego vs ps =
        session b u ego vs ps \<and>
      (returns (first_tick v) \<and> start_controller v = None \<and> j < 600 \<and>
       (\<forall>i<j. returns (discard_ticks v i)) \<and> discard_ticks v j = Inl e \<longrightarrow>
         raised (session b v ego vs ps) = Some e) \<and>
      (returns (first_tick x) \<and> start_controller x = None \<and>
       (\<forall>i<600. returns (discard_ticks x i)) \<and> l < 2000 \<and>
       (\<forall>i<l. returns (record_ticks x i) \<and> traffic_lights x i = None) \<and> record_ticks x l = Inl f \<longrightarrow>
         raised (session b x ego vs ps) = Some f) \<and>
      (returns (first_tick w) \<and> start_controller w = None \<and>
       (\<forall>i<600. returns (discard_ticks w i)) \<and>
       (\<forall>i<2000. delivers_lidar 1 (record_ticks w i) \<and> traffic_lights w i = None) \<and>
       savez w = None \<longrightarrow>
         (\<exists>s. archive (session b w ego vs ps) = Some s \<and> length (lidar_clouds s) = 100))"
    if b: "hz b = 200" "lidar_hz b = 10" "discard_duration b = 3" "duration b = 10" "\<not> lidar_is_pandora b"
  proof -
    have td: "nat (ticks_to_discard b) = 600" and tr: "nat (ticks_to_record b) = 2000"
      and n: "lidar_subpackets_per_pcl b = 1" and k: "keep_lidar_every_x_idx b = Inr 20"
      using b by (simp_all add: ticks_to_discard_def ticks_to_record_def py_int_def
          lidar_subpackets_per_pcl_def keep_lidar_every_x_idx_def)
    have nums: "ticks_to_discard b = 600 \<and> ticks_to_record b = 2000 \<and> keep_lidar_every_x_idx b = Inr 20"
      using b by (simp add: ticks_to_discard_def ticks_to_record_def py_int_def keep_lidar_every_x_idx_def)
    have used: "session b
        (u\<lparr>discard_ticks := (\<lambda>i. if i < 600 then discard_ticks u i else dt i),
           record_ticks := (\<lambda>i. if i < 2000 then record_ticks u i else rt i),
           traffic_lights := (\<lambda>i. if i < 2000 then traffic_lights u i else tf i)\<rparr>) ego vs ps =
        session b u ego vs ps"
      by (rule session_ticks_used) (simp_all add: td tr)
    have wu: "warm_up b y recorder0 = Inr (recorder0 :: 'a recorder)"
      if "returns (first_tick y)" "start_controller y = None" "\<forall>i<600. returns (discard_ticks y i)"
      for y :: "'a world"
    proof -
      have "warm_up b y recorder0 = Inr (clear_sensor_queues (recorder0 :: 'a recorder))"
        using that by (intro warm_up_returns) (simp_all add: td)
      then show ?thesis by (simp add: clear_sensor_queues_def recorder0_def)
    qed
    have dis: "raised (session b v ego vs ps) = Some e"
      if "returns (first_tick v)" "start_controller v = None" "j < 600"
        "\<forall>i<j. returns (discard_ticks v i)" "discard_ticks v j = Inl e"
    proof -
      have "warm_up b v recorder0 = Inl e"
        using that by (intro warm_up_raises [where j = j]) (simp_all add: td)
      with k show ?thesis by (simp add: session_def try_block_def)
    qed
    have rec: "raised (session b x ego vs ps) = Some f"
      if "returns (first_tick x)" "start_controller x = None" "\<forall>i<600. returns (discard_ticks x i)"
        "l < 2000" "\<forall>i<l. returns (record_ticks x i) \<and> traffic_lights x i = None"
        "record_ticks x l = Inl f"
    proof -
      have "recording b 20 x recorder0 = Inl f"
        using that(4,5,6) by (intro recording_raises [where j = l]) (simp_all add: tr)
      with k wu [OF that(1,2,3)] show ?thesis by (simp add: session_def try_block_def)
    qed
    have count: "\<exists>s. archive (session b w ego vs ps) = Some s \<and> length (lidar_clouds s) = 100"
      if w: "returns (first_tick w)" "start_controller w = None"
        "\<forall>i<600. returns (discard_ticks w i)"
        "\<forall>i<2000. delivers_lidar 1 (record_ticks w i) \<and> traffic_lights w i = None"
        "savez w = None"
    proof -
      have "\<exists>st'. recording b 20 w recorder0 = Inr st' \<and>
           length (point_clouds st') = length (point_clouds (recorder0 :: 'a recorder)) + nat (ticks_to_record b)"
        using w(4) by (intro recording_forms) (simp_all add: tr n)
      then obtain st' where r: "recording b 20 w recorder0 = Inr st'"
        and m: "length (point_clouds st') = 2000"
        by (auto simp: tr recorder0_def)
      from dec_inv_recording [OF dec_inv_recorder0 r]
      have "map fst (lidar_clouds_queue st') = spec_retained 20 (point_clouds st')"
        by (simp add: dec_inv_def)
      then have "int (length (lidar_clouds_queue st')) = int (length (spec_retained 20 (point_clouds st')))"
        by (metis length_map)
      also have "\<dots> = \<lceil>real (length (point_clouds st')) / real_of_int 20\<rceil>"
        by (rule length_spec_retained) simp
      finally have len: "length (lidar_clouds_queue st') = 100" by (simp add: m)
      show ?thesis
        using k wu [OF w(1,2,3)] r w(5) len
        by (cases "csv_writerow w") (simp_all add: session_def try_block_def saved_sequence_def)
    qed
    from nums used dis rec count show ?thesis by blast
  qed
  from init rule zero scen show ?thesis by blast
qed

text \<open>
  The default arguments: a step with one measurement in the queue forms and retains a cloud
  and moves the counter from 0 to 1, and with a factor of zero it raises. In
  \<open>steady_world\<close> the session writes an archive with 100 point clouds, and it does so
  unchanged when every discarded tick from the 600th on and every recorded tick from the
  2000th on would raise. When the discarded tick 599 raises, or the recorded tick 1999, the
  session ends with its exception.
\<close>

theorem decimator_rule_and_count_witness:
  "record_lidar args_default 20 (recorder0\<lparr>lidar_queue := [frame 1]\<rparr>) =
     Inr (recorder0\<lparr>lidar_clouds_queue := [([1], 1)], current_lidar_idx := 1,
           point_clouds := [[1]]\<rparr>) \<and>
   record_lidar args_default 0 (recorder0\<lparr>lidar_queue := [frame 1]\<rparr>) = Inl ZeroDivisionError \<and>
   ticks_to_discard args_default = 600 \<and> ticks_to_record args_default = 2000 \<and>
   keep_lidar_every_x_idx args_default = Inr 20 \<and>
   session args_default
     (steady_world\<lparr>discard_ticks := (\<lambda>i. if i < 600 then discard_ticks steady_world i else no_more_ticks i),
        record_ticks := (\<lambda>i. if i < 2000 then record_ticks steady_world i else no_more_ticks i),
        traffic_lights := (\<lambda>i. if i < 2000 then traffic_lights steady_world i else Some IndexError)\<rparr>)
     ego0 vehicles0 pedestrians0 =
     session args_default steady_world ego0 vehicles0 pedestrians0 \<and>
   raised (session args_default last_discard_fails ego0 vehicles0 pedestrians0) = Some (Fault ''tick'') \<and>
   raised (session args_default last_record_fails ego0 vehicles0 pedestrians0) = Some (Fault ''tick'') \<and>
   (\<exists>s. archive (session args_default steady_world ego0 vehicles0 pedestrians0) = Some s \<and>
        length (lidar_clouds s) = 100)"
proof -
  have a: "hz args_default = 200 \<and> lidar_hz args_default = 10 \<and> discard_duration args_default = 3 \<and>
      duration args_default = 10 \<and> \<not> lidar_is_pandora args_default"
    by (simp add: args_default_def)
  have w: "returns (first_tick steady_world) \<and> start_controller steady_world = None \<and>
       (\<forall>i<600. returns (discard_ticks steady_world i)) \<and>
       (\<forall>i<2000. delivers_lidar 1 (record_ticks steady_world i) \<and> traffic_lights steady_world i = None) \<and>
       savez steady_world = None"
    by (simp add: steady_world_def one_each_def returns_def delivers_lidar_def)
  have v: "returns (first_tick last_discard_fails) \<and> start_controller last_discard_fails = None \<and>
       (599 :: nat) < 600 \<and> (\<forall>i<599. returns (discard_ticks last_discard_fails i)) \<and>
       discard_ticks last_discard_fails 599 = Inl (Fault ''tick'')"
    by (simp add: last_discard_fails_def steady_world_def returns_def)
  have x: "returns (first_tick last_record_fails) \<and> start_controller last_record_fails = None \<and>
       (\<forall>i<600. returns (discard_ticks last_record_fails i)) \<and> (1999 :: nat) < 2000 \<and>
       (\<forall>i<1999. returns (record_ticks last_record_fails i) \<and> traffic_lights last_record_fails i = None) \<and>
       record_ticks last_record_fails 1999 = Inl (Fault ''tick'')"
    by (simp add: last_record_fails_def steady_world_def returns_def)
  have k: "(20 :: int) \<noteq> 0" by simp
  have q: "lidar_subpackets_per_pcl args_default \<le> length (lidar_queue (recorder0\<lparr>lidar_queue := [frame 1 :: nat measurement]\<rparr>))"
    by (simp add: input_defs run_defs)
  have r: "record_lidar args_default 20 (recorder0\<lparr>lidar_queue := [frame 1]\<rparr>) =
     Inr (recorder0\<lparr>lidar_clouds_queue := [([1], 1)], current_lidar_idx := 1,
           point_clouds := [[1]]\<rparr>)"
    by (simp add: input_defs run_defs)
  from decimator_rule_and_count [where k = 20 and a = args_default
      and st = "recorder0\<lparr>lidar_queue := [frame 1]\<rparr>"
      and sv = "recorder0\<lparr>lidar_queue := [frame 1]\<rparr>" and b = args_default
      and w = steady_world and ego = ego0 and vs = vehicles0 and ps = pedestrians0
      and u = steady_world and dt = no_more_ticks and rt = no_more_ticks
      and tf = "\<lambda>i. Some IndexError"
      and v = last_discard_fails and j = 599 and e = "Fault ''tick''"
      and x = last_record_fails and l = 1999 and f = "Fault ''tick''"] a w v x k q r
  show ?thesis by blast
qed

text \<open>
  Counterexample to C3 as stated: with the tick rate 5 and the LiDAR rate 10 the factor is
  0. In the first recorded tick the queue holds one measurement and the cloud \<open>[10]\<close> is
  formed, but the step raises ZeroDivisionError at the test: the counter is not incremented,
  and the recording loop ends with this exception.
\<close>

theorem decimator_zero_counterexample:
  "keep_lidar_every_x_idx args_slow = Inr 0 \<and>
   lidar_subpackets_per_pcl args_slow = 1 \<and>
   merge_subpackets 1 (lidar_queue (recorder0\<lparr>lidar_queue := [frame 10]\<rparr>)) = [10] \<and>
   current_lidar_idx (recorder0\<lparr>lidar_queue := [frame 10 :: nat measurement]\<rparr>) = 0 \<and>
   record_lidar args_slow 0 (recorder0\<lparr>lidar_queue := [frame 10]\<rparr>) = Inl ZeroDivisionError \<and>
   recording args_slow 0 steady_world recorder0 = Inl ZeroDivisionError"
  by (simp add: input_defs run_defs for_range_numeral)

text \<open>
  Claim C5. A warm-up that ends without exception ends in the state it started from with the
  four sensor queues cleared: the clearing is its last step, before the first recorded tick.
  Started from the initial recorder it ends in the initial recorder. So every archive that a
  session writes holds the four recorded sequences of a recording loop started with empty
  sensor queues and empty recorded sequences, which reads the recorded ticks only; and a
  session in which the first tick and the discarded ticks deliver other measurements (and
  still do not raise) has the same outcome, archive included: nothing that the warm-up has
  put into a queue reaches the recorded sequences.
\<close>

theorem warm_up_isolation:
  "(warm_up a w st = Inr st' \<longrightarrow>
      st' = clear_sensor_queues st \<and>
      dvs_queue st' = [] \<and> depth_queue st' = [] \<and> lidar_queue st' = [] \<and> rgb_queue st' = []) \<and>
   (warm_up a w recorder0 = Inr st0 \<longrightarrow> st0 = recorder0) \<and>
   (archive (session a w ego vs ps) = Some s \<longrightarrow>
      (\<exists>k st1. keep_lidar_every_x_idx a = Inr k \<and> recording a k w recorder0 = Inr st1 \<and>
         s = saved_sequence st1)) \<and>
   (returns (warm_up a w (recorder0 :: 'a recorder)) \<and>
    returns (warm_up a (w\<lparr>first_tick := ft, discard_ticks := dt\<rparr>) (recorder0 :: 'a recorder)) \<longrightarrow>
      session a (w\<lparr>first_tick := ft, discard_ticks := dt\<rparr>) ego vs ps = session a w ego vs ps)"
proof -
  have 1: "st' = clear_sensor_queues st \<and>
      dvs_queue st' = [] \<and> depth_queue st' = [] \<and> lidar_queue st' = [] \<and> rgb_queue st' = []"
    if "warm_up a w st = Inr st'"
    using warm_up_clear [OF that] by (simp add: clear_sensor_queues_def)
  have 2: "session a (w\<lparr>first_tick := ft, discard_ticks := dt\<rparr>) ego vs ps = session a w ego vs ps"
    if r: "returns (warm_up a w (recorder0 :: 'a recorder))"
      "returns (warm_up a (w\<lparr>first_tick := ft, discard_ticks := dt\<rparr>) (recorder0 :: 'a recorder))"
  proof -
    from r(1) obtain s1 where "warm_up a w recorder0 = Inr (s1 :: 'a recorder)"
      by (auto simp: returns_def split: sum.splits)
    with warm_up_recorder0 [OF this] have w1: "warm_up a w recorder0 = Inr (recorder0 :: 'a recorder)"
      by simp
    from r(2) obtain s2 where
      "warm_up a (w\<lparr>first_tick := ft, discard_ticks := dt\<rparr>) recorder0 = Inr (s2 :: 'a recorder)"
      by (auto simp: returns_def split: sum.splits)
    with warm_up_recorder0 [OF this]
    have w2: "warm_up a (w\<lparr>first_tick := ft, discard_ticks := dt\<rparr>) recorder0 = Inr (recorder0 :: 'a recorder)"
      by simp
    have rt: "record_tick a k (w\<lparr>first_tick := ft, discard_ticks := dt\<rparr>) = record_tick a k w" for k
      by (intro ext) (simp add: record_tick_def split: sum.splits option.splits)
    have "try_block a k (w\<lparr>first_tick := ft, discard_ticks := dt\<rparr>) = try_block a k w" for k
      by (simp add: try_block_def w1 w2 recording_def rt split: sum.splits option.splits)
    then show ?thesis by (simp add: session_def split: sum.splits)
  qed
  have 3: "\<exists>k st1. keep_lidar_every_x_idx a = Inr k \<and> recording a k w recorder0 = Inr st1 \<and>
         s = saved_sequence st1"
    if arch: "archive (session a w ego vs ps) = Some s"
  proof -
    from arch obtain k where k: "keep_lidar_every_x_idx a = Inr k"
      by (cases "keep_lidar_every_x_idx a") (simp_all add: session_def)
    with arch have tb: "fst (snd (try_block a k w)) = Some s"
      by (simp add: session_def split: prod.splits)
    then obtain stw where wu: "warm_up a w recorder0 = Inr (stw :: 'a recorder)"
      by (cases "warm_up a w (recorder0 :: 'a recorder)") (simp_all add: try_block_def)
    from warm_up_recorder0 [OF wu] wu have wu0: "warm_up a w recorder0 = Inr (recorder0 :: 'a recorder)"
      by simp
    from tb wu0 obtain st1 where r: "recording a k w recorder0 = Inr st1"
      by (cases "recording a k w recorder0") (simp_all add: try_block_def)
    from tb wu0 r have "s = saved_sequence st1"
      by (simp add: try_block_def split: option.splits)
    with k r show ?thesis by blast
  qed
  show ?thesis using 1 2 3 warm_up_recorder0 [of a w st0] by blast
qed

text \<open>
  For \<open>args_short\<close> in \<open>steady_world\<close>: the warm-up started with a measurement in the events
  queue ends with the queues empty; the archive holds the measurements 10 to 12 of the
  recorded ticks only; and the session has the same outcome when the first tick delivers
  measurement 20 and the discarded ticks deliver the measurements from 30 on.
\<close>

theorem warm_up_isolation_witness:
  "warm_up args_short steady_world (recorder0\<lparr>dvs_queue := [frame 5]\<rparr>) = Inr recorder0 \<and>
   warm_up args_short steady_world recorder0 = Inr recorder0 \<and>
   archive (session args_short steady_world ego0 vehicles0 pedestrians0) =
     Some (saved_sequence recorded_short) \<and>
   keep_lidar_every_x_idx args_short = Inr 2 \<and>
   recording args_short 2 steady_world recorder0 = Inr recorded_short \<and>
   session args_short (steady_world\<lparr>first_tick := Inr (one_each 20), discard_ticks := late_discard_ticks\<rparr>)
     ego0 vehicles0 pedestrians0 =
   session args_short steady_world ego0 vehicles0 pedestrians0"
proof -
  have h1: "warm_up args_short steady_world (recorder0\<lparr>dvs_queue := [frame 5]\<rparr>) = Inr recorder0"
    by (simp add: input_defs run_defs)
  have h2: "returns (warm_up args_short steady_world (recorder0 :: nat recorder))"
    by (simp add: warm_up_short returns_def)
  have h3: "returns (warm_up args_short
      (steady_world\<lparr>first_tick := Inr (one_each 20), discard_ticks := late_discard_ticks\<rparr>)
      (recorder0 :: nat recorder))"
    by (simp add: input_defs run_defs)
  have h4: "archive (session args_short steady_world ego0 vehicles0 pedestrians0) =
     Some (saved_sequence recorded_short)"
    by (simp add: input_defs run_defs for_range_numeral)
  have h5: "keep_lidar_every_x_idx args_short = Inr 2"
    by (simp add: input_defs run_defs)
  from warm_up_isolation [where a = args_short and w = steady_world
      and st = "recorder0\<lparr>dvs_queue := [frame 5]\<rparr>" and st' = recorder0 and ?st0.0 = recorder0
      and ft = "Inr (one_each 20)" and dt = late_discard_ticks
      and ego = ego0 and vs = vehicles0 and ps = pedestrians0
      and s = "saved_sequence recorded_short"]
    h1 h2 h3 h4 h5 warm_up_short recording_short
  show ?thesis by blast
qed




section \<open>The decimation factor and the number of retained clouds\<close>

text \<open>
  Claim C2, as amended. The claim holds for the configurations whose tick rate is at least
  the LiDAR rate, not for every pair of positive rates: for \<open>0 < lidar_hz \<le> hz\<close> the
  factor is at least 1 and the LiDAR step never raises; and when the factor is 1, the
  recorded clouds at the end of the recording loop are exactly the clouds formed, so both
  sequences have the same length.
\<close>

theorem keep_every_positive:
  assumes "0 < lidar_hz a" "lidar_hz a \<le> hz a"
  shows "\<exists>k. keep_lidar_every_x_idx a = Inr k \<and> 1 \<le> k \<and>
           (\<exists>st'. record_lidar a k st = Inr st') \<and>
           (k = 1 \<and> warm_up a w recorder0 = Inr st0 \<and> recording a k w st0 = Inr st1 \<longrightarrow>
              map fst (lidar_clouds_queue st1) = point_clouds st1 \<and>
              length (lidar_clouds_queue st1) = length (point_clouds st1))"
proof -
  define k where "k = \<lfloor>hz a / lidar_hz a\<rfloor>"
  have keep: "keep_lidar_every_x_idx a = Inr k"
    using assms(1) by (simp add: keep_lidar_every_x_idx_def k_def)
  have "1 \<le> hz a / lidar_hz a" using assms by simp
  then have k1: "1 \<le> k" unfolding k_def by linarith
  then have "\<exists>st'. record_lidar a k st = Inr st'"
    by (simp add: record_lidar_def Let_def)
  moreover have "map fst (lidar_clouds_queue st1) = point_clouds st1 \<and>
              length (lidar_clouds_queue st1) = length (point_clouds st1)"
    if "k = 1" "warm_up a w recorder0 = Inr st0" "recording a k w st0 = Inr st1"
  proof -
    from warm_up_recorder0 [OF that(2)] have "dec_inv k st0" by (simp add: dec_inv_recorder0)
    from dec_inv_recording [OF this that(3)]
    have "map fst (lidar_clouds_queue st1) = point_clouds st1"
      by (simp add: dec_inv_def that(1) spec_retained_1)
    then show ?thesis by (metis length_map)
  qed
  ultimately show ?thesis using keep k1 by blast
qed

text \<open>
  For \<open>args_full_rate\<close> (both rates 2) in \<open>steady_world\<close>: the factor is 1 and the two
  clouds formed are the two clouds recorded.
\<close>

theorem keep_every_positive_witness:
  "keep_lidar_every_x_idx args_full_rate = Inr 1 \<and>
   record_lidar args_full_rate 1 (recorder0\<lparr>lidar_queue := [frame 1]\<rparr>) =
     Inr (recorder0\<lparr>lidar_clouds_queue := [([1], 1)], current_lidar_idx := 1,
           point_clouds := [[1]]\<rparr>) \<and>
   recording args_full_rate 1 steady_world recorder0 = Inr recorded_full_rate \<and>
   map fst (lidar_clouds_queue recorded_full_rate) = point_clouds recorded_full_rate \<and>
   length (lidar_clouds_queue recorded_full_rate) = 2"
proof -
  have h1: "0 < lidar_hz args_full_rate" by (simp add: input_defs)
  have h2: "lidar_hz args_full_rate \<le> hz args_full_rate" by (simp add: input_defs)
  have k: "keep_lidar_every_x_idx args_full_rate = Inr 1" by (simp add: input_defs run_defs)
  have r: "record_lidar args_full_rate 1 (recorder0\<lparr>lidar_queue := [frame 1]\<rparr>) =
     Inr (recorder0\<lparr>lidar_clouds_queue := [([1], 1)], current_lidar_idx := 1,
           point_clouds := [[1]]\<rparr>)"
    by (simp add: input_defs run_defs)
  have l: "length (lidar_clouds_queue recorded_full_rate) = 2" by (simp add: input_defs)
  from keep_every_positive [OF h1 h2, where st = "recorder0\<lparr>lidar_queue := [frame 1]\<rparr>"
      and w = steady_world and ?st0.0 = recorder0 and ?st1.0 = recorded_full_rate]
    k r l warm_up_full_rate recording_full_rate
  show ?thesis by auto
qed

text \<open>
  Counterexample to C2 as stated: the tick rate 5 and the LiDAR rate 10 are both positive,
  the factor is 0, and the retention test of a step that has formed a cloud raises
  ZeroDivisionError.
\<close>

theorem keep_every_counterexample:
  "0 < hz args_slow \<and> 0 < lidar_hz args_slow \<and>
   keep_lidar_every_x_idx args_slow = Inr 0 \<and>
   record_lidar args_slow 0 (recorder0\<lparr>lidar_queue := [frame 10]\<rparr>) = Inl ZeroDivisionError"
  by (simp add: input_defs run_defs)

text \<open>
  Claim C10, as amended. For a decimation factor of at least 1 (the claim holds for these
  sessions, not for every session): at the end of a recording loop that started after the
  warm-up of the initial recorder, the counter is the number \<open>m\<close> of clouds formed, the
  number of recorded clouds is the ceiling of \<open>m\<close> divided by the factor, and when a cloud
  has been formed, the first recorded cloud is the first cloud formed.
\<close>

theorem retained_count:
  assumes "1 \<le> k" "warm_up a w recorder0 = Inr st" "recording a k w st = Inr st'"
  shows "current_lidar_idx st' = int (length (point_clouds st')) \<and>
         int (length (lidar_clouds_queue st')) = \<lceil>real (length (point_clouds st')) / real_of_int k\<rceil> \<and>
         (point_clouds st' \<noteq> [] \<longrightarrow>
            lidar_clouds_queue st' \<noteq> [] \<and> fst (hd (lidar_clouds_queue st')) = hd (point_clouds st'))"
proof -
  from warm_up_recorder0 [OF assms(2)] have "dec_inv k st" by (simp add: dec_inv_recorder0)
  from dec_inv_recording [OF this assms(3)]
  have c: "current_lidar_idx st' = int (length (point_clouds st'))"
    and m: "map fst (lidar_clouds_queue st') = spec_retained k (point_clouds st')"
    by (simp_all add: dec_inv_def)
  from m have "length (lidar_clouds_queue st') = length (spec_retained k (point_clouds st'))"
    by (metis length_map)
  with length_spec_retained [OF assms(1), of "point_clouds st'"]
  have l: "int (length (lidar_clouds_queue st')) = \<lceil>real (length (point_clouds st')) / real_of_int k\<rceil>"
    by simp
  have h: "lidar_clouds_queue st' \<noteq> [] \<and> fst (hd (lidar_clouds_queue st')) = hd (point_clouds st')"
    if "point_clouds st' \<noteq> []"
  proof -
    from assms(1) have "k \<noteq> 0" by simp
    from spec_retained_hd [OF this that] m
    have ne: "map fst (lidar_clouds_queue st') \<noteq> []"
      and hd: "hd (map fst (lidar_clouds_queue st')) = hd (point_clouds st')" by simp_all
    from ne have "lidar_clouds_queue st' \<noteq> []" by simp
    with hd show ?thesis by (simp add: hd_map)
  qed
  from c l h show ?thesis by blast
qed

text \<open>
  For \<open>args_short\<close> (factor 2) in \<open>steady_world\<close>: three clouds are formed, two are
  recorded, and the first recorded cloud is the first cloud formed.
\<close>

theorem retained_count_witness:
  "recording args_short 2 steady_world recorder0 = Inr recorded_short \<and>
   length (point_clouds recorded_short) = 3 \<and>
   int (length (lidar_clouds_queue recorded_short)) = \<lceil>real (length (point_clouds recorded_short)) / real_of_int 2\<rceil> \<and>
   length (lidar_clouds_queue recorded_short) = 2 \<and>
   fst (hd (lidar_clouds_queue recorded_short)) = hd (point_clouds recorded_short)"
proof -
  have k: "(1 :: int) \<le> 2" by simp
  have p: "length (point_clouds recorded_short) = 3" "point_clouds recorded_short \<noteq> []"
    "length (lidar_clouds_queue recorded_short) = 2"
    by (simp_all add: input_defs)
  from retained_count [OF k warm_up_short recording_short] p recording_short
  show ?thesis by simp
qed

text \<open>
  Counterexample to C10 as stated: with the tick rate 5 and the LiDAR rate 10 the factor is
  0; the first recorded tick forms the first cloud and raises ZeroDivisionError at the
  retention test, and the session ends with this exception and without archive.
\<close>

theorem first_cloud_counterexample:
  "keep_lidar_every_x_idx args_slow = Inr 0 \<and>
   warm_up args_slow steady_world recorder0 = Inr recorder0 \<and>
   record_tick args_slow 0 steady_world 0 recorder0 = Inl ZeroDivisionError \<and>
   raised (session args_slow steady_world ego0 vehicles0 pedestrians0) = Some ZeroDivisionError \<and>
   archive (session args_slow steady_world ego0 vehicles0 pedestrians0) = None"
  by (simp add: input_defs run_defs for_range_numeral)

section \<open>Teardown\<close>

lemma mset_ego: "mset (ego_destroy e) = mset (ego_spawned e)"
  by (simp add: ego_destroy_def ego_spawned_def)

lemma mset_pedestrians:
  "mset (concat (map pedestrian_destroy ps)) = mset (concat (map pedestrian_spawned ps))"
  by (induction ps) (simp_all add: pedestrian_destroy_def pedestrian_spawned_def)

lemma mset_teardown: "mset (teardown e vs ps) = mset (spawn_order e vs ps)"
  by (simp add: teardown_def spawn_order_def mset_ego mset_pedestrians)

lemma destroyed_by_append: "destroyed_by (cs @ ds) = destroyed_by cs @ destroyed_by ds"
  by (induction cs rule: destroyed_by.induct) simp_all

lemma destroyed_by_Destroy: "destroyed_by (map Destroy xs) = xs"
  by (induction xs) simp_all

lemma destroyed_by_pedestrians:
  "destroyed_by (concat (map pedestrian_destroy_calls ps)) = concat (map pedestrian_destroy ps)"
  by (induction ps) (simp_all add: pedestrian_destroy_calls_def pedestrian_destroy_def)

lemma destroyed_by_teardown_calls: "destroyed_by (teardown_calls e vs ps) = teardown e vs ps"
  by (simp add: teardown_calls_def teardown_def destroyed_by_append destroyed_by_Destroy
      destroyed_by_pedestrians)

lemma run_calls_no_fault:
  "\<forall>c\<in>set cs. fails c = None \<Longrightarrow> run_calls fails cs = (destroyed_by cs, None)"
proof (induction cs)
  case Nil
  show ?case by simp
next
  case (Cons c cs)
  then show ?case by (cases c) simp_all
qed

lemma run_calls_first_fault:
  "\<forall>c\<in>set cs. fails c = None \<Longrightarrow> fails c = Some e \<Longrightarrow>
   run_calls fails (cs @ c # ds) = (destroyed_by cs, Some e)"
proof (induction cs)
  case Nil
  then show ?case by simp
next
  case (Cons x cs)
  then show ?case by (cases x) simp_all
qed

lemma run_calls_prefix: "\<exists>rest. destroyed_by cs = fst (run_calls fails cs) @ rest"
proof (induction cs)
  case Nil
  show ?case by simp
next
  case (Cons c cs)
  then obtain rest where r: "destroyed_by cs = fst (run_calls fails cs) @ rest" by blast
  show ?case
  proof (cases "fails c")
    case None
    with r show ?thesis by (cases c; cases "run_calls fails cs") simp_all
  next
    case (Some e)
    then show ?thesis by simp
  qed
qed

lemma main_run_parts:
  assumes "lidar_hz a \<noteq> 0"
  shows "destroyed (main_run a w fails ego vs ps) = fst (run_calls fails (teardown_calls ego vs ps)) \<and>
    raised (main_run a w fails ego vs ps) =
      (case snd (run_calls fails (teardown_calls ego vs ps)) of
         Some e \<Rightarrow> Some e | None \<Rightarrow> raised (session a w ego vs ps))"
  using assms
  by (simp add: main_run_def session_def keep_lidar_every_x_idx_def
      split: prod.splits option.splits)

lemma main_run_no_fault:
  assumes "\<forall>c\<in>set (teardown_calls ego vs ps). fails c = None"
  shows "main_run a w fails ego vs ps = session a w ego vs ps"
  using run_calls_no_fault [OF assms]
  by (simp add: main_run_def session_def destroyed_by_teardown_calls split: sum.splits prod.splits)

text \<open>
  Claim C8, as amended. Whenever the try block is entered (the LiDAR rate is not zero),
  whether it ends normally or with an exception of any of its statements, the finally block
  runs once and makes its calls in this order: the destruction of the sensors of the
  ego-vehicle (event camera, depth camera, LiDAR sensors, RGB camera) and of the
  ego-vehicle, of the AI vehicles in the order of their registration, and for each AI
  pedestrian in the order of registration the stop and the destruction of its controller
  and then the destruction of the walker. Provided that none of these calls raises, every
  spawned actor is destroyed as often as it was spawned, so exactly once when the actors are
  distinct, and the outcome is that of the try block. The calls are not protected: whatever
  raises, the actors destroyed are a beginning of that order, and the first call that
  raises ends the teardown, so that the actors of the later calls are not destroyed and its
  exception reaches the caller. The order is not the reverse of the order of spawning: the
  ego-vehicle, spawned first, is torn down first.
\<close>

theorem teardown_unconditional:
  assumes "lidar_hz a \<noteq> 0"
  shows "((\<forall>c\<in>set (teardown_calls ego vs ps). fails c = None) \<longrightarrow>
           main_run a w fails ego vs ps = session a w ego vs ps \<and>
           destroyed (main_run a w fails ego vs ps) =
             [dvs ego, depth ego] @ lidar ego @ [rgb ego, vehicle ego] @ vs @
             concat (map (\<lambda>p. [controller p, pedestrian p]) ps) \<and>
           mset (destroyed (main_run a w fails ego vs ps)) = mset (spawn_order ego vs ps) \<and>
           (distinct (spawn_order ego vs ps) \<longrightarrow> distinct (destroyed (main_run a w fails ego vs ps)))) \<and>
         (\<exists>rest. [dvs ego, depth ego] @ lidar ego @ [rgb ego, vehicle ego] @ vs @
             concat (map (\<lambda>p. [controller p, pedestrian p]) ps) =
             destroyed (main_run a w fails ego vs ps) @ rest) \<and>
         (teardown_calls ego vs ps = before @ c # later \<and> (\<forall>x\<in>set before. fails x = None) \<and>
          fails c = Some e \<longrightarrow>
            raised (main_run a w fails ego vs ps) = Some e \<and>
            destroyed (main_run a w fails ego vs ps) = destroyed_by before)"
proof -
  have full: "teardown ego vs ps =
      [dvs ego, depth ego] @ lidar ego @ [rgb ego, vehicle ego] @ vs @
      concat (map (\<lambda>p. [controller p, pedestrian p]) ps)"
    by (simp add: teardown_def ego_destroy_def pedestrian_destroy_def [abs_def])
  note parts = main_run_parts [OF assms, of w fails ego vs ps]
  have 1: "main_run a w fails ego vs ps = session a w ego vs ps \<and>
           destroyed (main_run a w fails ego vs ps) = teardown ego vs ps \<and>
           mset (destroyed (main_run a w fails ego vs ps)) = mset (spawn_order ego vs ps) \<and>
           (distinct (spawn_order ego vs ps) \<longrightarrow> distinct (destroyed (main_run a w fails ego vs ps)))"
    if nf: "\<forall>c\<in>set (teardown_calls ego vs ps). fails c = None"
  proof -
    have d: "destroyed (main_run a w fails ego vs ps) = teardown ego vs ps"
      using parts run_calls_no_fault [OF nf] by (simp add: destroyed_by_teardown_calls)
    have "distinct (teardown ego vs ps)" if "distinct (spawn_order ego vs ps)"
      using that mset_teardown [of ego vs ps] by (metis mset_eq_imp_distinct_iff)
    with d mset_teardown [of ego vs ps] main_run_no_fault [OF nf, of a w] show ?thesis by simp
  qed
  have 2: "\<exists>rest. teardown ego vs ps = destroyed (main_run a w fails ego vs ps) @ rest"
    using parts run_calls_prefix [of "teardown_calls ego vs ps" fails]
    by (simp add: destroyed_by_teardown_calls)
  have 3: "raised (main_run a w fails ego vs ps) = Some e \<and>
            destroyed (main_run a w fails ego vs ps) = destroyed_by before"
    if "teardown_calls ego vs ps = before @ c # later" "\<forall>x\<in>set before. fails x = None"
      "fails c = Some e"
    using parts run_calls_first_fault [OF that(2,3), of later] that(1) by simp
  show ?thesis using 1 2 3 unfolding full by blast
qed

text \<open>
  A session that fails: with \<open>args_slow\<close> the recording loop raises ZeroDivisionError. When
  no teardown call raises, all nine actors are destroyed; when the destruction of the first
  AI vehicle raises, the actors 0 to 4 are destroyed, the actors 5 to 8 are not, and the
  exception of the destruction reaches the caller.
\<close>

theorem teardown_unconditional_witness:
  "raised (main_run args_slow steady_world no_fault ego0 vehicles0 pedestrians0) = Some ZeroDivisionError \<and>
   destroyed (main_run args_slow steady_world no_fault ego0 vehicles0 pedestrians0) =
     [1, 2, 3, 4, 0, 5, 6, 8, 7] \<and>
   distinct (spawn_order ego0 vehicles0 pedestrians0) \<and>
   distinct (destroyed (main_run args_slow steady_world no_fault ego0 vehicles0 pedestrians0)) \<and>
   raised (main_run args_slow steady_world vehicle_5_fails ego0 vehicles0 pedestrians0) =
     Some (Fault ''destroy failed'') \<and>
   destroyed (main_run args_slow steady_world vehicle_5_fails ego0 vehicles0 pedestrians0) =
     [1, 2, 3, 4, 0]"
proof -
  have h: "lidar_hz args_slow \<noteq> 0" by (simp add: input_defs)
  have nf: "\<forall>c\<in>set (teardown_calls ego0 vehicles0 pedestrians0). no_fault c = None"
    by (simp add: no_fault_def)
  have r: "raised (session args_slow steady_world ego0 vehicles0 pedestrians0) = Some ZeroDivisionError"
    by (simp add: input_defs run_defs for_range_numeral)
  have d: "distinct (spawn_order ego0 vehicles0 pedestrians0)"
    by (simp add: input_defs run_defs)
  have s: "teardown_calls ego0 vehicles0 pedestrians0 =
      [Destroy 1, Destroy 2, Destroy 3, Destroy 4, Destroy 0] @ Destroy 5 #
      [Destroy 6, Stop 8, Destroy 8, Destroy 7]"
    by (simp add: teardown_calls_def pedestrian_destroy_calls_def input_defs run_defs)
  have b: "\<forall>x\<in>set [Destroy 1, Destroy 2, Destroy 3, Destroy 4, Destroy 0]. vehicle_5_fails x = None"
    by (simp add: vehicle_5_fails_def)
  have f: "vehicle_5_fails (Destroy 5) = Some (Fault ''destroy failed'')"
    by (simp add: vehicle_5_fails_def)
  from teardown_unconditional [OF h, where w = steady_world and ego = ego0 and vs = vehicles0
      and ps = pedestrians0 and fails = no_fault] nf d
  have e: "main_run args_slow steady_world no_fault ego0 vehicles0 pedestrians0 =
      session args_slow steady_world ego0 vehicles0 pedestrians0"
    and l: "destroyed (main_run args_slow steady_world no_fault ego0 vehicles0 pedestrians0) =
      [dvs ego0, depth ego0] @ lidar ego0 @ [rgb ego0, vehicle ego0] @ vehicles0 @
      concat (map (\<lambda>p. [controller p, pedestrian p]) pedestrians0)"
    and t: "distinct (destroyed (main_run args_slow steady_world no_fault ego0 vehicles0 pedestrians0))"
    by blast+
  have l': "[dvs ego0, depth ego0] @ lidar ego0 @ [rgb ego0, vehicle ego0] @ vehicles0 @
      concat (map (\<lambda>p. [controller p, pedestrian p]) pedestrians0) = [1, 2, 3, 4, 0, 5, 6, 8, 7]"
    by (simp add: ego0_def vehicles0_def pedestrians0_def)
  from e r l l' t
  have 1: "raised (main_run args_slow steady_world no_fault ego0 vehicles0 pedestrians0) = Some ZeroDivisionError \<and>
   destroyed (main_run args_slow steady_world no_fault ego0 vehicles0 pedestrians0) =
     [1, 2, 3, 4, 0, 5, 6, 8, 7] \<and>
   distinct (destroyed (main_run args_slow steady_world no_fault ego0 vehicles0 pedestrians0))"
    by simp
  from teardown_unconditional [OF h, where w = steady_world and ego = ego0 and vs = vehicles0
      and ps = pedestrians0 and fails = vehicle_5_fails
      and before = "[Destroy 1, Destroy 2, Destroy 3, Destroy 4, Destroy 0]"
      and c = "Destroy 5" and later = "[Destroy 6, Stop 8, Destroy 8, Destroy 7]"
      and e = "Fault ''destroy failed''"] s b f
  have "raised (main_run args_slow steady_world vehicle_5_fails ego0 vehicles0 pedestrians0) =
     Some (Fault ''destroy failed'') \<and>
   destroyed (main_run args_slow steady_world vehicle_5_fails ego0 vehicles0 pedestrians0) =
     destroyed_by [Destroy 1, Destroy 2, Destroy 3, Destroy 4, Destroy 0]"
    by blast
  then have 2: "raised (main_run args_slow steady_world vehicle_5_fails ego0 vehicles0 pedestrians0) =
     Some (Fault ''destroy failed'') \<and>
   destroyed (main_run args_slow steady_world vehicle_5_fails ego0 vehicles0 pedestrians0) =
     [1, 2, 3, 4, 0]"
    by simp
  from 1 2 d show ?thesis by simp
qed

text \<open>
  Counterexample to C8 as stated: the actors are spawned in the order 0 to 8. When no
  teardown call raises, the run destroys the sensors 1 to 4 and the ego-vehicle 0 first and
  the pedestrian's actors last, which is not the reverse order. When the destruction of the
  AI vehicle 5 raises, the run destroys the actors 0 to 4 only: the actors 5 to 8 are
  leaked.
\<close>

theorem teardown_order_counterexample:
  "spawn_order ego0 vehicles0 pedestrians0 = [0, 1, 2, 3, 4, 5, 6, 7, 8] \<and>
   destroyed (main_run args_short steady_world no_fault ego0 vehicles0 pedestrians0) =
     [1, 2, 3, 4, 0, 5, 6, 8, 7] \<and>
   rev (spawn_order ego0 vehicles0 pedestrians0) = [8, 7, 6, 5, 4, 3, 2, 1, 0] \<and>
   destroyed (main_run args_short steady_world vehicle_5_fails ego0 vehicles0 pedestrians0) =
     [1, 2, 3, 4, 0]"
  by (simp add: input_defs run_defs main_run_def teardown_calls_def pedestrian_destroy_calls_def
      no_fault_def vehicle_5_fails_def for_range_numeral)

section \<open>Spawning\<close>

lemma spawn_vehicles_done:
  "\<not> int (length instances) < n \<Longrightarrow>
   spawn_vehicles pts choice try_spawn_actor n j instances = Some (Inr instances)"
  by (subst spawn_vehicles.simps) simp

lemma spawn_vehicles_retry:
  "int (length instances) < n \<Longrightarrow> pts \<noteq> [] \<Longrightarrow>
   spawn_vehicles pts choice try_spawn_actor n j instances =
   spawn_vehicles pts choice try_spawn_actor n (Suc j)
     (ai_vehicle_init (try_spawn_actor j (pts ! (choice j mod length pts))) instances)"
  by (subst spawn_vehicles.simps) simp

lemma spawn_vehicles_collisions:
  assumes "pts \<noteq> []"
    "\<And>i. i < c \<Longrightarrow> try_spawn_actor (j + i) (pts ! (choice (j + i) mod length pts)) = None"
    "try_spawn_actor (j + c) (pts ! (choice (j + c) mod length pts)) = Some x"
    "n = int (length instances) + 1"
  shows "spawn_vehicles pts choice try_spawn_actor n j instances = Some (Inr (instances @ [x]))"
  using assms(2,3)
proof (induction c arbitrary: j)
  case 0
  have lt: "int (length instances) < n" using assms(4) by simp
  have "spawn_vehicles pts choice try_spawn_actor n j instances =
        spawn_vehicles pts choice try_spawn_actor n (Suc j) (instances @ [x])"
    using 0(2) by (simp add: spawn_vehicles_retry [OF lt assms(1)] ai_vehicle_init_def)
  also have "\<dots> = Some (Inr (instances @ [x]))"
    by (rule spawn_vehicles_done) (simp add: assms(4))
  finally show ?case .
next
  case (Suc c)
  have lt: "int (length instances) < n" using assms(4) by simp
  have none: "try_spawn_actor j (pts ! (choice j mod length pts)) = None"
    using Suc.prems(1) [of 0] by simp
  have "spawn_vehicles pts choice try_spawn_actor n (Suc j) instances = Some (Inr (instances @ [x]))"
  proof (rule Suc.IH)
    fix i assume "i < c"
    then show "try_spawn_actor (Suc j + i) (pts ! (choice (Suc j + i) mod length pts)) = None"
      using Suc.prems(1) [of "Suc i"] by simp
  next
    show "try_spawn_actor (Suc j + c) (pts ! (choice (Suc j + c) mod length pts)) = Some x"
      using Suc.prems(2) by simp
  qed
  then show ?case
    by (simp add: spawn_vehicles_retry [OF lt assms(1)] none ai_vehicle_init_def)
qed

lemma spawn_vehicles_never_returns:
  assumes pts: "pts \<noteq> []"
    and coll: "\<And>i. j \<le> i \<Longrightarrow> try_spawn_actor i (pts ! (choice i mod length pts)) = None"
    and lt: "int (length instances) < n"
  shows "spawn_vehicles pts choice try_spawn_actor n j instances = None"
proof (cases "spawn_vehicles pts choice try_spawn_actor n j instances")
  case None
  then show ?thesis .
next
  case (Some r)
  have "p = pts \<and> c = choice \<and> t = try_spawn_actor \<and> m = n \<and> j \<le> j' \<and> i = instances \<longrightarrow> False"
    if run: "spawn_vehicles p c t m j' i = Some r'" for p c t m j' i r'
  proof (rule spawn_vehicles.raw_induct
      [where P = "\<lambda>p c t m j' i r'. p = pts \<and> c = choice \<and> t = try_spawn_actor \<and> m = n \<and> j \<le> j' \<and> i = instances \<longrightarrow> False",
        OF _ run])
    fix sv p c t m j' i r'
    assume ih: "\<And>p c t m j' i r'. sv p c t m j' i = Some r' \<Longrightarrow>
        p = pts \<and> c = choice \<and> t = try_spawn_actor \<and> m = n \<and> j \<le> j' \<and> i = instances \<longrightarrow> False"
      and step: "(if int (length i) < m
         then if p = [] then Some (Inl IndexError)
              else sv p c t m (Suc j') (ai_vehicle_init (t j' (p ! (c j' mod length p))) i)
         else Some (Inr i)) = Some r'"
    show "p = pts \<and> c = choice \<and> t = try_spawn_actor \<and> m = n \<and> j \<le> j' \<and> i = instances \<longrightarrow> False"
    proof
      assume a: "p = pts \<and> c = choice \<and> t = try_spawn_actor \<and> m = n \<and> j \<le> j' \<and> i = instances"
      with coll [of j'] have "try_spawn_actor j' (pts ! (choice j' mod length pts)) = None" by simp
      with step a pts lt
      have "sv pts choice try_spawn_actor n (Suc j') instances = Some r'"
        by (simp add: ai_vehicle_init_def)
      from ih [OF this] a show False by simp
    qed
  qed
  from this [OF Some] show ?thesis by simp
qed

lemma spawn_pedestrians_done:
  "\<not> int (length instances) < n \<Longrightarrow>
   spawn_pedestrians try_spawn_actor spawn_actor n j instances = Some (Inr instances)"
  by (subst spawn_pedestrians.simps) simp

lemma spawn_pedestrians_collision:
  "int (length instances) < n \<Longrightarrow> try_spawn_actor j = None \<Longrightarrow>
   spawn_pedestrians try_spawn_actor spawn_actor n j instances =
   spawn_pedestrians try_spawn_actor spawn_actor n (Suc j) instances"
  by (subst spawn_pedestrians.simps) (simp add: ai_pedestrian_init_def)

lemma spawn_pedestrians_success:
  "int (length instances) < n \<Longrightarrow> try_spawn_actor j = Some p \<Longrightarrow> spawn_actor j p = Inr c \<Longrightarrow>
   spawn_pedestrians try_spawn_actor spawn_actor n j instances =
   spawn_pedestrians try_spawn_actor spawn_actor n (Suc j)
     (instances @ [\<lparr>pedestrian = p, controller = c\<rparr>])"
  by (subst spawn_pedestrians.simps) (simp add: ai_pedestrian_init_def)

lemma spawn_pedestrians_controller_raises:
  "int (length instances) < n \<Longrightarrow> try_spawn_actor j = Some p \<Longrightarrow> spawn_actor j p = Inl e \<Longrightarrow>
   spawn_pedestrians try_spawn_actor spawn_actor n j instances = Some (Inl e)"
  by (subst spawn_pedestrians.simps) (simp add: ai_pedestrian_init_def)

lemma spawn_pedestrians_collisions:
  assumes "\<And>i. i < c \<Longrightarrow> try_spawn_actor (j + i) = None"
    "try_spawn_actor (j + c) = Some p"
    "int (length instances) < n"
  shows "spawn_pedestrians try_spawn_actor spawn_actor n j instances =
         spawn_pedestrians try_spawn_actor spawn_actor n (j + c) instances"
  using assms(1)
proof (induction c arbitrary: j)
  case 0
  show ?case by simp
next
  case (Suc c)
  have none: "try_spawn_actor j = None"
    using Suc.prems [of 0] by simp
  have "spawn_pedestrians try_spawn_actor spawn_actor n (Suc j) instances =
        spawn_pedestrians try_spawn_actor spawn_actor n (Suc j + c) instances"
  proof (rule Suc.IH)
    fix i assume "i < c"
    then show "try_spawn_actor (Suc j + i) = None"
      using Suc.prems [of "Suc i"] by simp
  qed
  then show ?case
    using spawn_pedestrians_collision
      [where try_spawn_actor = try_spawn_actor and j = j and spawn_actor = spawn_actor
        and instances = instances and n = n] assms(3) none
    by simp
qed

lemma spawn_pedestrians_retry:
  assumes "\<And>i. i < c \<Longrightarrow> try_spawn_actor (j + i) = None"
    "try_spawn_actor (j + c) = Some p"
    "n = int (length instances) + 1"
  shows "spawn_pedestrians try_spawn_actor spawn_actor n j instances =
    (case spawn_actor (j + c) p of
       Inl e \<Rightarrow> Some (Inl e)
     | Inr k \<Rightarrow> Some (Inr (instances @ [\<lparr>pedestrian = p, controller = k\<rparr>])))"
proof -
  have lt: "int (length instances) < n" using assms(3) by simp
  have skip: "spawn_pedestrians try_spawn_actor spawn_actor n j instances =
      spawn_pedestrians try_spawn_actor spawn_actor n (j + c) instances"
    by (rule spawn_pedestrians_collisions [where p = p]) (simp_all add: assms(1,2) lt)
  note at = assms(2)
  show ?thesis
  proof (cases "spawn_actor (j + c) p")
    case (Inl e)
    with skip lt at spawn_pedestrians_controller_raises
      [where try_spawn_actor = try_spawn_actor and j = "j + c" and p = p
        and spawn_actor = spawn_actor and e = e and instances = instances and n = n]
    show ?thesis by simp
  next
    case (Inr k)
    have "spawn_pedestrians try_spawn_actor spawn_actor n (Suc (j + c))
        (instances @ [\<lparr>pedestrian = p, controller = k\<rparr>]) =
        Some (Inr (instances @ [\<lparr>pedestrian = p, controller = k\<rparr>]))"
      by (rule spawn_pedestrians_done) (simp add: assms(3))
    with skip lt at Inr spawn_pedestrians_success
      [where try_spawn_actor = try_spawn_actor and j = "j + c" and p = p
        and spawn_actor = spawn_actor and c = k and instances = instances and n = n]
    show ?thesis by simp
  qed
qed

lemma spawn_pedestrians_never_returns:
  assumes coll: "\<And>i. j \<le> i \<Longrightarrow> try_spawn_actor i = None"
    and lt: "int (length instances) < n"
  shows "spawn_pedestrians try_spawn_actor spawn_actor n j instances = None"
proof (cases "spawn_pedestrians try_spawn_actor spawn_actor n j instances")
  case None
  then show ?thesis .
next
  case (Some r)
  have "t = try_spawn_actor \<and> m = n \<and> j \<le> j' \<and> i = instances \<longrightarrow> False"
    if run: "spawn_pedestrians t s m j' i = Some r'" for t s m j' i r'
  proof (rule spawn_pedestrians.raw_induct
      [where P = "\<lambda>t s m j' i r'. t = try_spawn_actor \<and> m = n \<and> j \<le> j' \<and> i = instances \<longrightarrow> False",
        OF _ run])
    fix sp t s m j' i r'
    assume ih: "\<And>t s m j' i r'. sp t s m j' i = Some r' \<Longrightarrow>
        t = try_spawn_actor \<and> m = n \<and> j \<le> j' \<and> i = instances \<longrightarrow> False"
      and step: "(if int (length i) < m
         then case ai_pedestrian_init (t j') (s j') i of
                Inl e \<Rightarrow> Some (Inl e)
              | Inr registered \<Rightarrow> sp t s m (Suc j') registered
         else Some (Inr i)) = Some r'"
    show "t = try_spawn_actor \<and> m = n \<and> j \<le> j' \<and> i = instances \<longrightarrow> False"
    proof
      assume a: "t = try_spawn_actor \<and> m = n \<and> j \<le> j' \<and> i = instances"
      with coll [of j'] have "try_spawn_actor j' = None" by simp
      with step a lt
      have "sp try_spawn_actor s n (Suc j') instances = Some r'"
        by (simp add: ai_pedestrian_init_def)
      from ih [OF this] a show False by simp
    qed
  qed
  from this [OF Some] show ?thesis by simp
qed

text \<open>
  Claim C9, as amended. A colliding attempt (a null result of the simulator for the vehicle
  or for the walker) registers nothing, and the loop tries again with a newly drawn spawn
  point (vehicles) or navigation location (pedestrians): after any number \<open>c\<close> of
  collisions (5 in the scenario of the claim) followed by a success, the loop of the
  vehicles returns without error with exactly one more registered vehicle, and the loop of
  the pedestrians returns without error with exactly one more registered pedestrian provided
  that the spawning of the controller of the walker returns; when it raises, its exception
  ends the loop. The retries are not bounded by the number of placements, and no error is
  raised when the placements are exhausted: each loop ends normally only when the required
  number of instances is registered, and when every attempt collides it never returns.
\<close>

theorem spawn_retry:
  "ai_vehicle_init None instances = instances \<and>
   (pts \<noteq> [] \<and>
    (\<forall>i<c. try_spawn_actor (j + i) (pts ! (choice (j + i) mod length pts)) = None) \<and>
    try_spawn_actor (j + c) (pts ! (choice (j + c) mod length pts)) = Some x \<longrightarrow>
      spawn_vehicles pts choice try_spawn_actor (int (length instances) + 1) j instances =
        Some (Inr (instances @ [x]))) \<and>
   (qts \<noteq> [] \<and> (\<forall>i\<ge>l. collide i (qts ! (pick i mod length qts)) = None) \<and>
    int (length registered) < n \<longrightarrow>
      spawn_vehicles qts pick collide n l registered = None) \<and>
   ai_pedestrian_init None attach walkers = Inr walkers \<and>
   ((\<forall>i<d. try_spawn_walker (k + i) = None) \<and> try_spawn_walker (k + d) = Some y \<longrightarrow>
      (spawn_controller (k + d) y = Inr z \<longrightarrow>
         spawn_pedestrians try_spawn_walker spawn_controller (int (length walkers) + 1) k walkers =
           Some (Inr (walkers @ [\<lparr>pedestrian = y, controller = z\<rparr>]))) \<and>
      (spawn_controller (k + d) y = Inl e \<longrightarrow>
         spawn_pedestrians try_spawn_walker spawn_controller (int (length walkers) + 1) k walkers =
           Some (Inl e))) \<and>
   ((\<forall>i\<ge>h. walker_collides i = None) \<and> int (length strollers) < m \<longrightarrow>
      spawn_pedestrians walker_collides any_controller m h strollers = None)"
proof -
  have 1: "ai_vehicle_init None instances = instances"
    by (simp add: ai_vehicle_init_def)
  have 2: "pts \<noteq> [] \<and>
    (\<forall>i<c. try_spawn_actor (j + i) (pts ! (choice (j + i) mod length pts)) = None) \<and>
    try_spawn_actor (j + c) (pts ! (choice (j + c) mod length pts)) = Some x \<longrightarrow>
      spawn_vehicles pts choice try_spawn_actor (int (length instances) + 1) j instances =
        Some (Inr (instances @ [x]))"
    using spawn_vehicles_collisions [of pts c try_spawn_actor j choice x "int (length instances) + 1" instances]
    by simp
  have 3: "qts \<noteq> [] \<and> (\<forall>i\<ge>l. collide i (qts ! (pick i mod length qts)) = None) \<and>
    int (length registered) < n \<longrightarrow>
      spawn_vehicles qts pick collide n l registered = None"
    using spawn_vehicles_never_returns [of qts l collide pick registered n] by simp
  have 4: "ai_pedestrian_init None attach walkers = Inr walkers"
    by (simp add: ai_pedestrian_init_def)
  have 5: "(\<forall>i<d. try_spawn_walker (k + i) = None) \<and> try_spawn_walker (k + d) = Some y \<longrightarrow>
      (spawn_controller (k + d) y = Inr z \<longrightarrow>
         spawn_pedestrians try_spawn_walker spawn_controller (int (length walkers) + 1) k walkers =
           Some (Inr (walkers @ [\<lparr>pedestrian = y, controller = z\<rparr>]))) \<and>
      (spawn_controller (k + d) y = Inl e \<longrightarrow>
         spawn_pedestrians try_spawn_walker spawn_controller (int (length walkers) + 1) k walkers =
           Some (Inl e))"
    using spawn_pedestrians_retry [of d try_spawn_walker k y "int (length walkers) + 1" walkers
        spawn_controller]
    by simp
  have 6: "(\<forall>i\<ge>h. walker_collides i = None) \<and> int (length strollers) < m \<longrightarrow>
      spawn_pedestrians walker_collides any_controller m h strollers = None"
    using spawn_pedestrians_never_returns [of h walker_collides strollers m any_controller] by simp
  from 1 2 3 4 5 6 show ?thesis by blast
qed

text \<open>
  On a map with a single spawn point: five collisions and a success at the sixth attempt
  register exactly the vehicle spawned, after six attempts at the one spawn point; and with
  a simulator in which every attempt collides, the loop for one vehicle never returns. For
  the pedestrians: five collisions and a success at the sixth attempt register exactly the
  walker 10 with its controller 11; when the spawning of the controller raises, the loop
  ends with that exception; and when every attempt collides, the loop for one pedestrian
  never returns.
\<close>

theorem spawn_retry_witness:
  "ai_vehicle_init None [] = [] \<and>
   spawn_vehicles single_point first_choice sixth_succeeds 1 0 [] = Some (Inr [9]) \<and>
   length single_point = 1 \<and>
   spawn_vehicles single_point first_choice always_collides 1 0 [] = None \<and>
   spawn_pedestrians walker_sixth_succeeds next_controller 1 0 [] =
     Some (Inr [\<lparr>pedestrian = 10, controller = 11\<rparr>]) \<and>
   spawn_pedestrians walker_sixth_succeeds no_controller 1 0 [] =
     Some (Inl (Fault ''spawn failed'')) \<and>
   spawn_pedestrians walker_always_collides next_controller 1 0 [] = None"
proof -
  have h1: "single_point \<noteq> [] \<and>
    (\<forall>i<5. sixth_succeeds (0 + i) (single_point ! (first_choice (0 + i) mod length single_point)) = None) \<and>
    sixth_succeeds (0 + 5) (single_point ! (first_choice (0 + 5) mod length single_point)) = Some 9"
    by (simp add: single_point_def sixth_succeeds_def)
  have h2: "single_point \<noteq> [] \<and>
    (\<forall>i\<ge>0. always_collides i (single_point ! (first_choice i mod length single_point)) = None) \<and>
    int (length ([] :: actor list)) < 1"
    by (simp add: single_point_def always_collides_def)
  have h3: "(\<forall>i<5. walker_sixth_succeeds (0 + i) = None) \<and> walker_sixth_succeeds (0 + 5) = Some 10"
    by (simp add: walker_sixth_succeeds_def)
  have h4: "next_controller (0 + 5) 10 = Inr 11" "no_controller (0 + 5) 10 = Inl (Fault ''spawn failed'')"
    by (simp_all add: next_controller_def no_controller_def)
  have h5: "(\<forall>i\<ge>0. walker_always_collides i = None) \<and> int (length ([] :: ai_pedestrian list)) < 1"
    by (simp add: walker_always_collides_def)
  from spawn_retry [where instances = "[]" and pts = single_point and c = 5
      and try_spawn_actor = sixth_succeeds and j = 0 and choice = first_choice and x = 9
      and qts = single_point and l = 0 and collide = always_collides and pick = first_choice
      and registered = "[]" and n = 1
      and walkers = "[]" and d = 5 and k = 0 and try_spawn_walker = walker_sixth_succeeds
      and y = 10 and spawn_controller = next_controller and z = 11
      and h = 0 and walker_collides = walker_always_collides and strollers = "[]" and m = 1
      and any_controller = next_controller] h1 h2 h3 h4(1) h5
  have a: "ai_vehicle_init None [] = [] \<and>
   spawn_vehicles single_point first_choice sixth_succeeds 1 0 [] = Some (Inr [9]) \<and>
   spawn_vehicles single_point first_choice always_collides 1 0 [] = None \<and>
   spawn_pedestrians walker_sixth_succeeds next_controller 1 0 [] =
     Some (Inr [\<lparr>pedestrian = 10, controller = 11\<rparr>]) \<and>
   spawn_pedestrians walker_always_collides next_controller 1 0 [] = None"
    by simp
  from spawn_retry [where instances = "[]" and pts = single_point and c = 5
      and try_spawn_actor = sixth_succeeds and j = 0 and choice = first_choice and x = 9
      and qts = single_point and l = 0 and collide = always_collides and pick = first_choice
      and registered = "[]" and n = 1
      and walkers = "[]" and d = 5 and k = 0 and try_spawn_walker = walker_sixth_succeeds
      and y = 10 and spawn_controller = no_controller and e = "Fault ''spawn failed''"
      and h = 0 and walker_collides = walker_always_collides and strollers = "[]" and m = 1
      and any_controller = next_controller] h3 h4(2)
  have b: "spawn_pedestrians walker_sixth_succeeds no_controller 1 0 [] =
     Some (Inl (Fault ''spawn failed''))"
    by simp
  from a b show ?thesis by (simp add: single_point_def)
qed

text \<open>
  Counterexample to C9 as stated: one spawn point, every attempt collides, one vehicle
  wanted. The placements are exhausted, and the loop neither stops nor raises an error. The
  same holds of the loop of the pedestrians when every attempt collides.
\<close>

theorem spawn_exhausted_counterexample:
  "length single_point = 1 \<and>
   spawn_vehicles single_point first_choice always_collides 1 0 [] = None \<and>
   spawn_pedestrians walker_always_collides next_controller 1 0 [] = None"
proof -
  have "spawn_vehicles single_point first_choice always_collides 1 0 [] = None"
    by (rule spawn_vehicles_never_returns) (simp_all add: single_point_def always_collides_def)
  moreover have "spawn_pedestrians walker_always_collides next_controller 1 0 [] = None"
    by (rule spawn_pedestrians_never_returns) (simp_all add: walker_always_collides_def)
  ultimately show ?thesis by (simp add: single_point_def)
qed

end
